theory Spec2Isabelle
  imports Complex_Main
begin

section \<open>Line of sight intersection of an observer with an ellipsoid (pymap3d, los.py)\<close>

text \<open>
  The development embeds \<^verbatim>\<open>lookAtSpheroid\<close> of \<^verbatim>\<open>src/pymap3d/los.py\<close>.

  Numbers. A Python float is modelled as an exact real number, one of the two infinities,
  or the not-a-number value. Rounding, overflow, underflow and the sign of zero are not
  modelled: every statement below is about exact real arithmetic extended with the
  IEEE rules for infinities and NaN.

  Environments. The module imports \<^verbatim>\<open>pi, nan, sqrt, atleast_1d\<close> from numpy and falls back
  to \<^verbatim>\<open>math\<close> when numpy cannot be imported (lines 6 to 9). The two outcomes give the
  function two behaviours, so it is embedded twice: \<open>lookAtSpheroid\<close> is the function
  with numpy (arguments are scalars or one-dimensional arrays), \<open>lookAtSpheroid_math\<close>
  is the function after the fallback (arguments are Python floats). For the shapes of
  the results the function with numpy is also embedded on arrays of any number of
  dimensions, as \<open>lookAtSpheroid_nd\<close>.

  Collaborators. \<^verbatim>\<open>aer2enu\<close>, \<^verbatim>\<open>enu2uvw\<close>, \<^verbatim>\<open>geodetic2ecef\<close> and \<^verbatim>\<open>ecef2geodetic\<close> live in
  modules that are not part of the verified source. They are parameters of the
  embedding: a record of four functions that act on one element and may raise. On
  arrays they are applied elementwise, as numpy functions are; what a statement needs
  of them beyond that is a hypothesis of the statement.
\<close>

subsection \<open>Floats\<close>

datatype num = Fin real | PInf | NInf | NaN

definition inf_of_sign :: "real \<Rightarrow> num" where
  "inf_of_sign s = (if 0 < s then PInf else if s < 0 then NInf else NaN)"

instantiation num :: "{plus, minus, uminus, times, inverse, ord}"
begin

fun uminus_num :: "num \<Rightarrow> num" where
  "- Fin a = Fin (- a)"
| "- PInf = NInf"
| "- NInf = PInf"
| "- NaN = NaN"

fun plus_num :: "num \<Rightarrow> num \<Rightarrow> num" where
  "Fin a + Fin b = Fin (a + b)"
| "NaN + _ = NaN"
| "_ + NaN = NaN"
| "PInf + NInf = NaN"
| "NInf + PInf = NaN"
| "PInf + _ = PInf"
| "_ + PInf = PInf"
| "NInf + _ = NInf"
| "_ + NInf = NInf"

definition minus_num :: "num \<Rightarrow> num \<Rightarrow> num" where
  "a - b = a + - (b::num)"

fun times_num :: "num \<Rightarrow> num \<Rightarrow> num" where
  "Fin a * Fin b = Fin (a * b)"
| "NaN * _ = NaN"
| "_ * NaN = NaN"
| "Fin a * PInf = inf_of_sign a"
| "Fin a * NInf = inf_of_sign (- a)"
| "PInf * Fin b = inf_of_sign b"
| "NInf * Fin b = inf_of_sign (- b)"
| "PInf * PInf = PInf"
| "NInf * NInf = PInf"
| "PInf * NInf = NInf"
| "NInf * PInf = NInf"

text \<open>Division as numpy performs it: a zero divisor gives an infinity or NaN (with a
  warning), never an exception. (Inside the instantiation the quotient is written
  \<open>div\<close>; afterwards it is \<open>/\<close>.)\<close>

fun divide_num :: "num \<Rightarrow> num \<Rightarrow> num" where
  "Fin a div Fin b = (if b = 0 then inf_of_sign a else Fin (a / b))"
| "NaN div _ = NaN"
| "_ div NaN = NaN"
| "Fin a div PInf = Fin 0"
| "Fin a div NInf = Fin 0"
| "PInf div Fin b = (if b < 0 then NInf else PInf)"
| "NInf div Fin b = (if b < 0 then PInf else NInf)"
| "PInf div PInf = NaN"
| "PInf div NInf = NaN"
| "NInf div PInf = NaN"
| "NInf div NInf = NaN"

definition inverse_num :: "num \<Rightarrow> num" where
  "inverse_num a = Fin 1 div a"

text \<open>Comparisons: every comparison with NaN is false.\<close>

fun less_num :: "num \<Rightarrow> num \<Rightarrow> bool" where
  "Fin a < Fin b \<longleftrightarrow> a < b"
| "NaN < _ \<longleftrightarrow> False"
| "_ < NaN \<longleftrightarrow> False"
| "_ < NInf \<longleftrightarrow> False"
| "PInf < _ \<longleftrightarrow> False"
| "NInf < _ \<longleftrightarrow> True"
| "_ < PInf \<longleftrightarrow> True"

fun less_eq_num :: "num \<Rightarrow> num \<Rightarrow> bool" where
  "Fin a \<le> Fin b \<longleftrightarrow> a \<le> b"
| "NaN \<le> _ \<longleftrightarrow> False"
| "_ \<le> NaN \<longleftrightarrow> False"
| "NInf \<le> _ \<longleftrightarrow> True"
| "_ \<le> PInf \<longleftrightarrow> True"
| "_ \<le> NInf \<longleftrightarrow> False"
| "PInf \<le> _ \<longleftrightarrow> False"

instance ..

end

text \<open>\<^verbatim>\<open>x ** 2\<close>\<close>

definition pow2 :: "num \<Rightarrow> num" where
  "pow2 x = x * x"

subsection \<open>Exceptions\<close>

text \<open>\<open>OtherError\<close> stands for any exception class that only a collaborator can raise.\<close>

datatype exn = ValueError | TypeError | ZeroDivisionError | UnboundLocalError | OtherError nat

definition bindE :: "exn + 'a \<Rightarrow> ('a \<Rightarrow> exn + 'b) \<Rightarrow> exn + 'b" where
  "bindE m f = (case m of Inl e \<Rightarrow> Inl e | Inr x \<Rightarrow> f x)"

text \<open>\<^verbatim>\<open>numpy.sqrt\<close>: NaN (and a warning) below zero. \<^verbatim>\<open>math.sqrt\<close>: ValueError below zero.\<close>

fun np_sqrt :: "num \<Rightarrow> num" where
  "np_sqrt (Fin a) = (if a < 0 then NaN else Fin (sqrt a))"
| "np_sqrt PInf = PInf"
| "np_sqrt NInf = NaN"
| "np_sqrt NaN = NaN"

fun math_sqrt :: "num \<Rightarrow> exn + num" where
  "math_sqrt (Fin a) = (if a < 0 then Inl ValueError else Inr (Fin (sqrt a)))"
| "math_sqrt PInf = Inr PInf"
| "math_sqrt NInf = Inl ValueError"
| "math_sqrt NaN = Inr NaN"

text \<open>\<^verbatim>\<open>x / y\<close> on Python floats: ZeroDivisionError when the divisor is zero.\<close>

definition py_truediv :: "num \<Rightarrow> num \<Rightarrow> exn + num" where
  "py_truediv x y = (if y = Fin 0 then Inl ZeroDivisionError else Inr (x / y))"

subsection \<open>The ellipsoid and the collaborators\<close>

record ellipsoid =
  semimajor_axis :: num
  semiminor_axis :: num

text \<open>Modelled from the spec: the class \<^verbatim>\<open>Ellipsoid\<close> is not in the source; section 6 of
  the specification gives the axes of the default instance \<^verbatim>\<open>Ellipsoid()\<close>.\<close>

definition default_ellipsoid :: ellipsoid where
  "default_ellipsoid =
     \<lparr>semimajor_axis = Fin 6378137, semiminor_axis = Fin 6356752.314245\<rparr>"

type_synonym vec3 = "num \<times> num \<times> num"

text \<open>The collaborators, each acting on one element: the arguments are those of the
  Python signatures (\<open>srange\<close> and \<open>deg\<close> included), the result is the returned triple
  or the exception raised.\<close>

record collab =
  aer2enu :: "num \<Rightarrow> num \<Rightarrow> num \<Rightarrow> bool \<Rightarrow> exn + vec3"
  enu2uvw :: "num \<Rightarrow> num \<Rightarrow> num \<Rightarrow> num \<Rightarrow> num \<Rightarrow> bool \<Rightarrow> exn + vec3"
  geodetic2ecef :: "num \<Rightarrow> num \<Rightarrow> num \<Rightarrow> bool \<Rightarrow> exn + vec3"
  ecef2geodetic :: "num \<Rightarrow> num \<Rightarrow> num \<Rightarrow> bool \<Rightarrow> exn + vec3"

subsection \<open>The solver (lines 89 to 118)\<close>

text \<open>Lines 89 to 105, for the axes \<open>(a, b, c)\<close>, the direction \<open>(u, v, w)\<close> and the
  observer \<open>(x, y, z)\<close>. The Python variable \<^verbatim>\<open>value\<close> is \<open>los_value\<close>.\<close>

fun los_value :: "vec3 \<Rightarrow> vec3 \<Rightarrow> vec3 \<Rightarrow> num" where
  "los_value (a, b, c) (u, v, w) (x, y, z) =
     - (pow2 a) * pow2 b * w * z - pow2 a * pow2 c * v * y - pow2 b * pow2 c * u * x"

fun los_radical :: "vec3 \<Rightarrow> vec3 \<Rightarrow> vec3 \<Rightarrow> num" where
  "los_radical (a, b, c) (u, v, w) (x, y, z) =
       pow2 a * pow2 b * pow2 w
     + pow2 a * pow2 c * pow2 v
     - pow2 a * pow2 v * pow2 z
     + Fin 2 * pow2 a * v * w * y * z
     - pow2 a * pow2 w * pow2 y
     + pow2 b * pow2 c * pow2 u
     - pow2 b * pow2 u * pow2 z
     + Fin 2 * pow2 b * u * w * x * z
     - pow2 b * pow2 w * pow2 x
     - pow2 c * pow2 u * pow2 y
     + Fin 2 * pow2 c * u * v * x * y
     - pow2 c * pow2 v * pow2 x"

fun los_magnitude :: "vec3 \<Rightarrow> vec3 \<Rightarrow> num" where
  "los_magnitude (a, b, c) (u, v, w) =
     pow2 a * pow2 b * pow2 w + pow2 a * pow2 c * pow2 v + pow2 b * pow2 c * pow2 u"

text \<open>Lines 108 to 118 with numpy, for one element of the arrays: the quotient, then the
  two masked assignments. Nothing raises: \<open>d\<close> is an array, so both assignments succeed.\<close>

fun slant_numpy :: "vec3 \<Rightarrow> vec3 \<times> vec3 \<Rightarrow> num" where
  "slant_numpy (a, b, c) (uvw, xyz) =
     (let val = los_value (a, b, c) uvw xyz;
          radical = los_radical (a, b, c) uvw xyz;
          magnitude = los_magnitude (a, b, c) uvw;
          d = (val - a * b * c * np_sqrt radical) / magnitude;
          d = (if radical < Fin 0 then NaN else d);
          d = (if d < Fin 0 then NaN else d)
      in d)"

text \<open>Lines 108 to 118 after the fallback to \<^verbatim>\<open>math\<close>. \<^verbatim>\<open>sqrt\<close> raises ValueError
  below zero and the first handler runs: it sets \<open>d\<close> when \<open>radical < 0\<close> and then
  compares \<open>d\<close> with zero (reading \<open>d\<close> unbound would be an UnboundLocalError). When the
  quotient is computed, \<open>d\<close> is a float and the first masked assignment raises TypeError;
  the second handler passes, so \<open>d\<close> keeps the quotient. ZeroDivisionError has no
  handler.\<close>

fun slant_math :: "vec3 \<Rightarrow> vec3 \<times> vec3 \<Rightarrow> exn + num" where
  "slant_math (a, b, c) (uvw, xyz) =
     (let val = los_value (a, b, c) uvw xyz;
          radical = los_radical (a, b, c) uvw xyz;
          magnitude = los_magnitude (a, b, c) uvw
      in case math_sqrt radical of
           Inl e \<Rightarrow>
             (if radical < Fin 0
              then (let d = NaN; d = (if d < Fin 0 then NaN else d) in Inr d)
              else Inl UnboundLocalError)
         | Inr s \<Rightarrow> py_truediv (val - a * b * c * s) magnitude)"

subsection \<open>The steps around the solver, for one element\<close>

text \<open>Line 83.\<close>

definition elevation :: "bool \<Rightarrow> num \<Rightarrow> num" where
  "elevation deg tilt = (if deg then tilt - Fin 90 else tilt - Fin (pi / 2))"

text \<open>Lines 69 and 70: the ellipsoid in effect.\<close>

definition ellipsoid_used :: "ellipsoid option \<Rightarrow> ellipsoid" where
  "ellipsoid_used ell = (case ell of None \<Rightarrow> default_ellipsoid | Some e \<Rightarrow> e)"

text \<open>Lines 79 to 81.\<close>

definition axes :: "ellipsoid option \<Rightarrow> vec3" where
  "axes ell =
     (let ell = ellipsoid_used ell;
          a = semimajor_axis ell;
          b = semimajor_axis ell;
          c = semiminor_axis ell
      in (a, b, c))"

text \<open>Lines 85 to 87 for one element \<open>(lat0, lon0, h0, az, tilt)\<close>: the direction and the
  position of the observer.\<close>

type_synonym row = "num \<times> num \<times> num \<times> num \<times> num"

fun ray :: "collab \<Rightarrow> bool \<Rightarrow> row \<Rightarrow> exn + vec3 \<times> vec3" where
  "ray K deg (lat0, lon0, h0, az, tilt) =
     bindE (aer2enu K az (elevation deg tilt) (Fin 1) deg) (\<lambda>(e, n, u).
     bindE (enu2uvw K e n u lat0 lon0 deg) (\<lambda>(u, v, w).
     bindE (geodetic2ecef K lat0 lon0 h0 deg) (\<lambda>(x, y, z).
     Inr ((u, v, w), (x, y, z)))))"

text \<open>Line 121 for one element.\<close>

fun surface_point :: "collab \<Rightarrow> bool \<Rightarrow> (vec3 \<times> vec3) \<times> num \<Rightarrow> exn + vec3" where
  "surface_point K deg (((u, v, w), (x, y, z)), d) =
     ecef2geodetic K (x + d * u) (y + d * v) (z + d * w) deg"

subsection \<open>The function after the fallback to math\<close>

text \<open>The whole function on floats. \<^verbatim>\<open>atleast_1d\<close> is unbound (NameError, handled at
  line 76) and the floats have no \<^verbatim>\<open>squeeze\<close> (AttributeError, handled at line 125).\<close>

definition lookAtSpheroid_math ::
  "collab \<Rightarrow> ellipsoid option \<Rightarrow> bool \<Rightarrow> num \<Rightarrow> num \<Rightarrow> num \<Rightarrow> num \<Rightarrow> num \<Rightarrow> exn + vec3" where
  "lookAtSpheroid_math K ell deg lat0 lon0 h0 az tilt =
     (if h0 < Fin 0 then Inl ValueError
      else
        bindE (ray K deg (lat0, lon0, h0, az, tilt)) (\<lambda>sight.
        bindE (slant_math (axes ell) sight) (\<lambda>d.
        bindE (surface_point K deg (sight, d)) (\<lambda>(lat, lon, alt).
        Inr (lat, lon, d)))))"

subsection \<open>The function with numpy\<close>

text \<open>An argument is a scalar or a one-dimensional array (arrays of any shape are
  the matter of the next subsection).\<close>

datatype pyval = Sc num | Arr "num list"

fun atleast_1d :: "pyval \<Rightarrow> pyval" where
  "atleast_1d (Sc x) = Arr [x]"
| "atleast_1d (Arr xs) = Arr xs"

text \<open>Line 66, \<^verbatim>\<open>if h0 < 0\<close>: the comparison is elementwise and the \<^verbatim>\<open>if\<close> takes the truth
  value of the result. For an array of two or more elements numpy raises ValueError
  (the truth value is ambiguous); the empty array counts as false (numpy 1.x).\<close>

fun altitude_negative :: "pyval \<Rightarrow> exn + bool" where
  "altitude_negative (Sc x) = Inr (x < Fin 0)"
| "altitude_negative (Arr []) = Inr False"
| "altitude_negative (Arr [x]) = Inr (x < Fin 0)"
| "altitude_negative (Arr (x # y # ys)) = Inl ValueError"

text \<open>Broadcasting. The shape of a scalar is \<open>()\<close>, of an array \<open>(n,)\<close>; shapes are
  compatible when all lengths other than 1 agree. numpy broadcasts inside each
  arithmetic operation; here all five arguments are brought to the common length once,
  and a mismatch is the ValueError of the first operation that would meet it.\<close>

fun dims :: "pyval \<Rightarrow> nat list" where
  "dims (Sc x) = []"
| "dims (Arr xs) = [length xs]"

definition common_len :: "nat list \<Rightarrow> exn + nat" where
  "common_len ls =
     (case filter (\<lambda>l. l \<noteq> 1) ls of
        [] \<Rightarrow> Inr 1
      | n # ns \<Rightarrow> if list_all (\<lambda>m. m = n) ns then Inr n else Inl ValueError)"

text \<open>Element \<open>i\<close> of a value broadcast to the common length (\<open>i\<close> below that length).\<close>

fun elem :: "pyval \<Rightarrow> nat \<Rightarrow> num" where
  "elem (Sc x) i = x"
| "elem (Arr xs) i = (if length xs = 1 then hd xs else xs ! i)"

definition broadcast_rows ::
  "pyval \<Rightarrow> pyval \<Rightarrow> pyval \<Rightarrow> pyval \<Rightarrow> pyval \<Rightarrow> exn + row list" where
  "broadcast_rows lat0 lon0 h0 az tilt =
     bindE (common_len (dims lat0 @ dims lon0 @ dims h0 @ dims az @ dims tilt)) (\<lambda>n.
     Inr (map (\<lambda>i. (elem lat0 i, elem lon0 i, elem h0 i, elem az i, elem tilt i)) [0..<n]))"

text \<open>A collaborator applied to arrays: elementwise, the first exception wins.\<close>

fun each :: "('a \<Rightarrow> exn + 'b) \<Rightarrow> 'a list \<Rightarrow> exn + 'b list" where
  "each f [] = Inr []"
| "each f (x # xs) = bindE (f x) (\<lambda>y. bindE (each f xs) (\<lambda>ys. Inr (y # ys)))"

text \<open>Lines 72 to 87: the three calls, each on whole arrays.\<close>

definition los_geometry :: "collab \<Rightarrow> bool \<Rightarrow> row list \<Rightarrow> exn + (vec3 \<times> vec3) list" where
  "los_geometry K deg rows =
     bindE (each (\<lambda>(lat0, lon0, h0, az, tilt).
                    aer2enu K az (elevation deg tilt) (Fin 1) deg) rows) (\<lambda>enus.
     bindE (each (\<lambda>((lat0, lon0, h0, az, tilt), (e, n, u)).
                    enu2uvw K e n u lat0 lon0 deg) (zip rows enus)) (\<lambda>uvws.
     bindE (each (\<lambda>(lat0, lon0, h0, az, tilt).
                    geodetic2ecef K lat0 lon0 h0 deg) rows) (\<lambda>xyzs.
     Inr (zip uvws xyzs))))"

definition los_inputs ::
  "collab \<Rightarrow> bool \<Rightarrow> pyval \<Rightarrow> pyval \<Rightarrow> pyval \<Rightarrow> pyval \<Rightarrow> pyval \<Rightarrow> exn + (vec3 \<times> vec3) list" where
  "los_inputs K deg lat0 lon0 h0 az tilt =
     (let lat0 = atleast_1d lat0;
          lon0 = atleast_1d lon0;
          tilt = atleast_1d tilt
      in bindE (broadcast_rows lat0 lon0 h0 az tilt) (los_geometry K deg))"

text \<open>Line 124, \<^verbatim>\<open>a.squeeze()[()]\<close>: an array of one element becomes a scalar.\<close>

fun squeeze :: "num list \<Rightarrow> pyval" where
  "squeeze [x] = Sc x"
| "squeeze xs = Arr xs"

text \<open>Lines 89 to 126 on the arrays.\<close>

definition los_finish ::
  "collab \<Rightarrow> bool \<Rightarrow> vec3 \<Rightarrow> (vec3 \<times> vec3) list \<Rightarrow> exn + pyval \<times> pyval \<times> pyval" where
  "los_finish K deg abc elems =
     (let ds = map (slant_numpy abc) elems
      in bindE (each (surface_point K deg) (zip elems ds)) (\<lambda>geos.
         Inr (squeeze (map fst geos), squeeze (map (\<lambda>g. fst (snd g)) geos), squeeze ds)))"

definition lookAtSpheroid ::
  "collab \<Rightarrow> ellipsoid option \<Rightarrow> bool \<Rightarrow> pyval \<Rightarrow> pyval \<Rightarrow> pyval \<Rightarrow> pyval \<Rightarrow> pyval
     \<Rightarrow> exn + pyval \<times> pyval \<times> pyval" where
  "lookAtSpheroid K ell deg lat0 lon0 h0 az tilt =
     bindE (altitude_negative h0) (\<lambda>negative.
       if negative then Inl ValueError
       else
         bindE (los_inputs K deg lat0 lon0 h0 az tilt) (los_finish K deg (axes ell)))"

subsection \<open>The function with numpy, on arrays of any shape\<close>

text \<open>The shape policy of the function concerns arrays of any number of dimensions, so the
  function with numpy is embedded once more, on such arrays. A value is a Python float
  or an array, given by its shape and its elements in row-major order. An array of
  numpy has as many elements as the product of its shape (\<open>nd_wf\<close>).\<close>

datatype ndval = Scalar num | Array "nat list" "num list"

fun nd_wf :: "ndval \<Rightarrow> bool" where
  "nd_wf (Scalar x) \<longleftrightarrow> True"
| "nd_wf (Array sh xs) \<longleftrightarrow> length xs = prod_list sh"

fun nd_shape :: "ndval \<Rightarrow> nat list" where
  "nd_shape (Scalar x) = []"
| "nd_shape (Array sh xs) = sh"

fun nd_size :: "ndval \<Rightarrow> nat" where
  "nd_size (Scalar x) = 1"
| "nd_size (Array sh xs) = length xs"

fun is_scalar :: "ndval \<Rightarrow> bool" where
  "is_scalar (Scalar x) \<longleftrightarrow> True"
| "is_scalar (Array sh xs) \<longleftrightarrow> False"

text \<open>\<^verbatim>\<open>atleast_1d\<close>: a float and an array of shape \<open>()\<close> become arrays of shape \<open>(1,)\<close>.\<close>

fun nd_atleast_1d :: "ndval \<Rightarrow> ndval" where
  "nd_atleast_1d (Scalar x) = Array [1] [x]"
| "nd_atleast_1d (Array [] xs) = Array [1] xs"
| "nd_atleast_1d (Array (n # ns) xs) = Array (n # ns) xs"

text \<open>Line 66: the truth value of \<^verbatim>\<open>h0 < 0\<close> is that of its only element, whatever the shape
  is; with two or more elements numpy raises ValueError, and the array without elements
  counts as false (numpy 1.x).\<close>

fun nd_altitude_negative :: "ndval \<Rightarrow> exn + bool" where
  "nd_altitude_negative (Scalar x) = Inr (x < Fin 0)"
| "nd_altitude_negative (Array sh []) = Inr False"
| "nd_altitude_negative (Array sh [x]) = Inr (x < Fin 0)"
| "nd_altitude_negative (Array sh (x # y # ys)) = Inl ValueError"

text \<open>Broadcasting as numpy defines it. Two shapes are aligned at their last axis; two
  lengths are compatible when they are equal or one of them is 1; a missing axis counts
  as 1. \<open>broadcast_rev\<close> works on the reversed shapes. A mismatch is the ValueError of the
  first operation that would meet it.\<close>

definition broadcast_dim :: "nat \<Rightarrow> nat \<Rightarrow> exn + nat" where
  "broadcast_dim m n =
     (if m = n \<or> n = 1 then Inr m else if m = 1 then Inr n else Inl ValueError)"

fun broadcast_rev :: "nat list \<Rightarrow> nat list \<Rightarrow> exn + nat list" where
  "broadcast_rev [] ns = Inr ns"
| "broadcast_rev (m # ms) [] = Inr (m # ms)"
| "broadcast_rev (m # ms) (n # ns) =
     bindE (broadcast_dim m n) (\<lambda>k. bindE (broadcast_rev ms ns) (\<lambda>ks. Inr (k # ks)))"

definition broadcast_shapes :: "nat list \<Rightarrow> nat list \<Rightarrow> exn + nat list" where
  "broadcast_shapes s t = bindE (broadcast_rev (rev s) (rev t)) (\<lambda>r. Inr (rev r))"

fun common_shape :: "nat list list \<Rightarrow> exn + nat list" where
  "common_shape [] = Inr []"
| "common_shape (s # ss) = bindE (common_shape ss) (broadcast_shapes s)"

text \<open>Element \<open>i\<close> (row-major, below the number of elements of the common shape \<open>S\<close>) of
  a value broadcast to \<open>S\<close>. \<open>source_index\<close> takes the reversed shapes: along an axis of
  length 1 of the array the index is 0, along the others it is the index in \<open>S\<close>. For
  an array of numpy whose shape takes part in \<open>S\<close> it is an index of the array (lemma
  \<open>nd_elem_in_range\<close>).\<close>

fun source_index :: "nat list \<Rightarrow> nat list \<Rightarrow> nat \<Rightarrow> nat" where
  "source_index (n # ns) (m # ms) i =
     (if m = 1 then 0 else i mod n) + m * source_index ns ms (i div n)"
| "source_index ns ms i = 0"

fun nd_elem :: "nat list \<Rightarrow> ndval \<Rightarrow> nat \<Rightarrow> num" where
  "nd_elem S (Scalar x) i = x"
| "nd_elem S (Array sh xs) i = xs ! source_index (rev S) (rev sh) i"

text \<open>A reversed shape fits a reversed common shape when it is not longer and each of
  its lengths is that of the common shape or 1.\<close>

fun fits :: "nat list \<Rightarrow> nat list \<Rightarrow> bool" where
  "fits [] ns \<longleftrightarrow> True"
| "fits (m # ms) [] \<longleftrightarrow> False"
| "fits (m # ms) (n # ns) \<longleftrightarrow> (m = n \<or> m = 1) \<and> fits ms ns"

text \<open>Element \<open>i\<close> of an output, in row-major order.\<close>

fun nd_flat :: "ndval \<Rightarrow> nat \<Rightarrow> num" where
  "nd_flat (Scalar x) i = x"
| "nd_flat (Array sh xs) i = xs ! i"

text \<open>Line 124, \<^verbatim>\<open>a.squeeze()[()]\<close>: \<^verbatim>\<open>squeeze\<close> removes the axes of length one and keeps the
  elements in their order; \<^verbatim>\<open>[()]\<close> turns an array without axes into a scalar and leaves
  the others as they are.\<close>

definition squeezed :: "nat list \<Rightarrow> nat list" where
  "squeezed S = filter (\<lambda>n. n \<noteq> 1) S"

definition nd_squeeze :: "nat list \<Rightarrow> num list \<Rightarrow> ndval" where
  "nd_squeeze S xs = (case squeezed S of [] \<Rightarrow> Scalar (hd xs) | n # ns \<Rightarrow> Array (n # ns) xs)"

text \<open>Lines 72 to 87 and lines 89 to 126 on the arrays, and the function: the steps of
  \<open>los_inputs\<close>, \<open>los_finish\<close> and \<open>lookAtSpheroid\<close>, the common shape being kept for the
  outputs.\<close>

definition nd_inputs ::
  "collab \<Rightarrow> bool \<Rightarrow> ndval \<Rightarrow> ndval \<Rightarrow> ndval \<Rightarrow> ndval \<Rightarrow> ndval
     \<Rightarrow> exn + nat list \<times> (vec3 \<times> vec3) list" where
  "nd_inputs K deg lat0 lon0 h0 az tilt =
     (let lat0 = nd_atleast_1d lat0;
          lon0 = nd_atleast_1d lon0;
          tilt = nd_atleast_1d tilt
      in bindE (common_shape [nd_shape lat0, nd_shape lon0, nd_shape h0, nd_shape az,
                  nd_shape tilt]) (\<lambda>S.
         bindE (los_geometry K deg
                  (map (\<lambda>i. (nd_elem S lat0 i, nd_elem S lon0 i, nd_elem S h0 i, nd_elem S az i,
                              nd_elem S tilt i)) [0..<prod_list S])) (\<lambda>elems.
         Inr (S, elems))))"

definition nd_finish ::
  "collab \<Rightarrow> bool \<Rightarrow> vec3 \<Rightarrow> nat list \<times> (vec3 \<times> vec3) list \<Rightarrow> exn + ndval \<times> ndval \<times> ndval" where
  "nd_finish K deg abc inputs =
     (case inputs of (S, elems) \<Rightarrow>
        (let ds = map (slant_numpy abc) elems
         in bindE (each (surface_point K deg) (zip elems ds)) (\<lambda>geos.
            Inr (nd_squeeze S (map fst geos), nd_squeeze S (map (\<lambda>g. fst (snd g)) geos),
                 nd_squeeze S ds))))"

definition lookAtSpheroid_nd ::
  "collab \<Rightarrow> ellipsoid option \<Rightarrow> bool \<Rightarrow> ndval \<Rightarrow> ndval \<Rightarrow> ndval \<Rightarrow> ndval \<Rightarrow> ndval
     \<Rightarrow> exn + ndval \<times> ndval \<times> ndval" where
  "lookAtSpheroid_nd K ell deg lat0 lon0 h0 az tilt =
     bindE (nd_altitude_negative h0) (\<lambda>negative.
       if negative then Inl ValueError
       else
         bindE (nd_inputs K deg lat0 lon0 h0 az tilt) (nd_finish K deg (axes ell)))"

text \<open>A scalar or one-dimensional array as a value of the embedding on arrays of any
  shape.\<close>

fun nd_of :: "pyval \<Rightarrow> ndval" where
  "nd_of (Sc x) = Scalar x"
| "nd_of (Arr xs) = Array [length xs] xs"

subsection \<open>What the statements assume of the collaborators\<close>

text \<open>Modelled from the spec: section 4.2, step 6, says that the sentinel is
  "propagated through the geodetic conversion"; \<^verbatim>\<open>ecef2geodetic\<close> itself is not in the
  source. \<open>ecef_nan\<close>: the conversion of the point with NaN coordinates returns NaN
  latitude and longitude.\<close>

definition ecef_nan :: "collab \<Rightarrow> bool \<Rightarrow> bool" where
  "ecef_nan K deg \<longleftrightarrow> (\<exists>alt. ecef2geodetic K NaN NaN NaN deg = Inr (NaN, NaN, alt))"

text \<open>\<open>ecef_returns\<close>: \<^verbatim>\<open>ecef2geodetic\<close> raises at no point.\<close>

definition ecef_returns :: "collab \<Rightarrow> bool \<Rightarrow> bool" where
  "ecef_returns K deg \<longleftrightarrow> (\<forall>x y z. \<not> isl (ecef2geodetic K x y z deg))"

text \<open>\<open>altitude_nan\<close>: when \<^verbatim>\<open>geodetic2ecef\<close> returns for a NaN altitude, one of the
  coordinates is NaN.\<close>

definition altitude_nan :: "collab \<Rightarrow> bool \<Rightarrow> bool" where
  "altitude_nan K deg \<longleftrightarrow>
     (\<forall>lat0 lon0. case geodetic2ecef K lat0 lon0 NaN deg of
        Inl e \<Rightarrow> True
      | Inr (x, y, z) \<Rightarrow> x = NaN \<or> y = NaN \<or> z = NaN)"

text \<open>\<open>collab_returns\<close>: no collaborator raises, whatever its arguments.\<close>

definition collab_returns :: "collab \<Rightarrow> bool \<Rightarrow> bool" where
  "collab_returns K deg \<longleftrightarrow>
     (\<forall>az el r. \<not> isl (aer2enu K az el r deg)) \<and>
     (\<forall>e n u lat0 lon0. \<not> isl (enu2uvw K e n u lat0 lon0 deg)) \<and>
     (\<forall>lat0 lon0 h0. \<not> isl (geodetic2ecef K lat0 lon0 h0 deg)) \<and>
     (\<forall>x y z. \<not> isl (ecef2geodetic K x y z deg))"

text \<open>\<^verbatim>\<open>radians\<close> and \<^verbatim>\<open>degrees\<close>, on one element and on a scalar or an array.\<close>

definition radians :: "num \<Rightarrow> num" where
  "radians x = x * Fin (pi / 180)"

definition degrees :: "num \<Rightarrow> num" where
  "degrees x = x * Fin (180 / pi)"

fun pymap :: "(num \<Rightarrow> num) \<Rightarrow> pyval \<Rightarrow> pyval" where
  "pymap f (Sc x) = Sc (f x)"
| "pymap f (Arr xs) = Arr (map f xs)"

text \<open>The conversions on a row of inputs and on a result of \<^verbatim>\<open>ecef2geodetic\<close>.\<close>

fun radians_row :: "row \<Rightarrow> row" where
  "radians_row (lat0, lon0, h0, az, tilt) =
     (radians lat0, radians lon0, h0, radians az, radians tilt)"

definition degrees_geo :: "vec3 \<Rightarrow> vec3" where
  "degrees_geo g = (case g of (lat, lon, alt) \<Rightarrow> (degrees lat, degrees lon, alt))"

text \<open>Modelled from the spec: section 3 and section 6 give the collaborators a unit
  flag, "angles in degrees or radians per a unit flag"; the functions themselves are not
  in the source. \<open>unit_flag\<close>: with the flag set, a collaborator reads its angles in
  degrees and returns angles in degrees; it is the same function of the same angles
  otherwise.\<close>

definition unit_flag :: "collab \<Rightarrow> bool" where
  "unit_flag K \<longleftrightarrow>
     (\<forall>az el r. aer2enu K az el r True = aer2enu K (radians az) (radians el) r False) \<and>
     (\<forall>e n u lat0 lon0.
        enu2uvw K e n u lat0 lon0 True = enu2uvw K e n u (radians lat0) (radians lon0) False) \<and>
     (\<forall>lat0 lon0 h0.
        geodetic2ecef K lat0 lon0 h0 True = geodetic2ecef K (radians lat0) (radians lon0) h0 False) \<and>
     (\<forall>x y z.
        ecef2geodetic K x y z True =
          map_sum id (\<lambda>(lat, lon, alt). (degrees lat, degrees lon, alt))
            (ecef2geodetic K x y z False))"

subsection \<open>The ray and the ellipsoid\<close>

text \<open>The point \<open>(x + d u, y + d v, z + d w)\<close> of the ray lies on the ellipsoid with
  semi-axes \<open>(ax, ay, az)\<close> when \<open>((x + d u) / ax)\<^sup>2 + ((y + d v) / ay)\<^sup>2 +
  ((z + d w) / az)\<^sup>2 = 1\<close>. Cleared of denominators this is the quadratic
  \<open>A d\<^sup>2 + B d + C = 0\<close> with the coefficients \<open>(A, B, C)\<close> below: the general triaxial
  ray and ellipsoid quadratic the specification speaks of.\<close>

type_synonym rvec3 = "real \<times> real \<times> real"

fun on_ellipsoid :: "rvec3 \<Rightarrow> rvec3 \<Rightarrow> bool" where
  "on_ellipsoid (ax, ay, az) (X, Y, Z) \<longleftrightarrow> (X / ax)\<^sup>2 + (Y / ay)\<^sup>2 + (Z / az)\<^sup>2 = 1"

fun triaxial_quadratic :: "rvec3 \<Rightarrow> rvec3 \<Rightarrow> rvec3 \<Rightarrow> rvec3" where
  "triaxial_quadratic (ax, ay, az) (u, v, w) (x, y, z) =
     (ay\<^sup>2 * az\<^sup>2 * u\<^sup>2 + ax\<^sup>2 * az\<^sup>2 * v\<^sup>2 + ax\<^sup>2 * ay\<^sup>2 * w\<^sup>2,
      2 * (ay\<^sup>2 * az\<^sup>2 * u * x + ax\<^sup>2 * az\<^sup>2 * v * y + ax\<^sup>2 * ay\<^sup>2 * w * z),
      ay\<^sup>2 * az\<^sup>2 * x\<^sup>2 + ax\<^sup>2 * az\<^sup>2 * y\<^sup>2 + ax\<^sup>2 * ay\<^sup>2 * z\<^sup>2 - ax\<^sup>2 * ay\<^sup>2 * az\<^sup>2)"

text \<open>The two roots as the specification writes them, from the quantities of lines 89
  to 105 (the square root is NaN below zero).\<close>

fun near_root :: "vec3 \<Rightarrow> vec3 \<times> vec3 \<Rightarrow> num" where
  "near_root (a, b, c) (uvw, xyz) =
     (los_value (a, b, c) uvw xyz - a * b * c * np_sqrt (los_radical (a, b, c) uvw xyz))
       / los_magnitude (a, b, c) uvw"

fun far_root :: "vec3 \<Rightarrow> vec3 \<times> vec3 \<Rightarrow> num" where
  "far_root (a, b, c) (uvw, xyz) =
     (los_value (a, b, c) uvw xyz + a * b * c * np_sqrt (los_radical (a, b, c) uvw xyz))
       / los_magnitude (a, b, c) uvw"

subsection \<open>Collaborators for concrete calls\<close>

text \<open>The values of the collaborators for an observer on the equator at longitude 0
  (the point \<open>(a + h0, 0, 0)\<close> of the x axis, \<open>a\<close> the semi-major axis of the default
  ellipsoid) and a line of sight with azimuth 0 that points down (negative elevation),
  north along the horizon (elevation 0) or up (positive elevation). The conversion
  back is the one of the points of the x axis.\<close>

definition axis_collab :: collab where
  "axis_collab =
     \<lparr>aer2enu = (\<lambda>az el r deg.
        Inr (if el = NaN then (NaN, NaN, NaN)
             else (Fin 0,
                   if el = Fin 0 then r else Fin 0,
                   if el < Fin 0 then - r else if Fin 0 < el then r else Fin 0))),
      enu2uvw = (\<lambda>e n u lat0 lon0 deg. Inr (u, e, n)),
      geodetic2ecef = (\<lambda>lat0 lon0 h0 deg. Inr (Fin 6378137 + h0, Fin 0, Fin 0)),
      ecef2geodetic = (\<lambda>x y z deg.
        Inr (if x = NaN \<or> y = NaN \<or> z = NaN then (NaN, NaN, NaN)
             else (Fin 0,
                   if x < Fin 0 then (if deg then Fin 180 else Fin pi) else Fin 0,
                   (if x < Fin 0 then - x else x) - Fin 6378137)))\<rparr>"

text \<open>Collaborators that raise on every call.\<close>

definition raising_collab :: collab where
  "raising_collab =
     \<lparr>aer2enu = (\<lambda>az el r deg. Inl (OtherError 1)),
      enu2uvw = (\<lambda>e n u lat0 lon0 deg. Inl (OtherError 2)),
      geodetic2ecef = (\<lambda>lat0 lon0 h0 deg. Inl (OtherError 3)),
      ecef2geodetic = (\<lambda>x y z deg. Inl (OtherError 4))\<rparr>"

subsection \<open>Arithmetic of the floats\<close>

lemma bindE_simps [simp]: "bindE (Inl e) f = Inl e" "bindE (Inr x) f = f x"
  by (simp_all add: bindE_def)

lemma bindE_Inr_iff: "bindE m f = Inr y \<longleftrightarrow> (\<exists>x. m = Inr x \<and> f x = Inr y)"
  by (cases m) simp_all

lemma minus_Fin [simp]: "Fin a - Fin b = Fin (a - b)"
  by (simp add: minus_num_def)

lemma pow2_Fin [simp]: "pow2 (Fin a) = Fin (a\<^sup>2)"
  by (simp add: pow2_def power2_eq_square)

lemma pow2_NaN [simp]: "pow2 NaN = NaN"
  by (simp add: pow2_def)

lemma times_NaN [simp]: "x * NaN = NaN"
  by (cases x) simp_all

lemma plus_NaN [simp]: "x + NaN = NaN"
  by (cases x) simp_all

lemma minus_NaN [simp]: "x - NaN = NaN" "NaN - x = NaN"
  by (simp_all add: minus_num_def)

lemma divide_NaN [simp]: "x / NaN = NaN"
  by (cases x) simp_all

lemma not_less_NaN [simp]: "\<not> x < NaN"
  by (cases x) simp_all

lemma magnitude_Fin:
  "los_magnitude (Fin a, Fin b, Fin c) (Fin u, Fin v, Fin w) =
     Fin (a\<^sup>2 * b\<^sup>2 * w\<^sup>2 + a\<^sup>2 * c\<^sup>2 * v\<^sup>2 + b\<^sup>2 * c\<^sup>2 * u\<^sup>2)"
  by simp

lemma magnitude_pos:
  fixes a b c u v w :: real
  assumes "0 < a" "0 < b" "0 < c" "(u, v, w) \<noteq> (0, 0, 0)"
  shows "0 < a\<^sup>2 * b\<^sup>2 * w\<^sup>2 + a\<^sup>2 * c\<^sup>2 * v\<^sup>2 + b\<^sup>2 * c\<^sup>2 * u\<^sup>2"
proof -
  have nn: "0 \<le> a\<^sup>2 * b\<^sup>2 * w\<^sup>2" "0 \<le> a\<^sup>2 * c\<^sup>2 * v\<^sup>2" "0 \<le> b\<^sup>2 * c\<^sup>2 * u\<^sup>2"
    by simp_all
  from assms(4) consider "u \<noteq> 0" | "v \<noteq> 0" | "w \<noteq> 0" by auto
  then show ?thesis
  proof cases
    case 1
    then have "0 < b\<^sup>2 * c\<^sup>2 * u\<^sup>2" using assms by simp
    with nn show ?thesis by linarith
  next
    case 2
    then have "0 < a\<^sup>2 * c\<^sup>2 * v\<^sup>2" using assms by simp
    with nn show ?thesis by linarith
  next
    case 3
    then have "0 < a\<^sup>2 * b\<^sup>2 * w\<^sup>2" using assms by simp
    with nn show ?thesis by linarith
  qed
qed

lemma ellipsoid_used_simps [simp]:
  "ellipsoid_used (Some E) = E"
  "ellipsoid_used None = default_ellipsoid"
  by (simp_all add: ellipsoid_used_def)

lemma axes_used:
  "axes ell = (semimajor_axis (ellipsoid_used ell), semimajor_axis (ellipsoid_used ell),
     semiminor_axis (ellipsoid_used ell))"
  by (simp add: axes_def Let_def)

lemma axes_Some [simp]: "axes (Some E) = (semimajor_axis E, semimajor_axis E, semiminor_axis E)"
  by (simp add: axes_def)

lemma axes_None [simp]: "axes None = (Fin 6378137, Fin 6378137, Fin 6356752.314245)"
  by (simp add: axes_def default_ellipsoid_def)

subsection \<open>Arrays\<close>

lemma each_Inr_iff:
  "each f xs = Inr ys \<longleftrightarrow>
     length ys = length xs \<and> (\<forall>i<length xs. f (xs ! i) = Inr (ys ! i))"
proof (induction xs arbitrary: ys)
  case Nil
  then show ?case by auto
next
  case (Cons x xs)
  show ?case
  proof (cases ys)
    case Nil
    then show ?thesis by (auto simp: bindE_def split: sum.splits)
  next
    case (Cons y ys')
    have "each f (x # xs) = Inr (y # ys') \<longleftrightarrow> f x = Inr y \<and> each f xs = Inr ys'"
      by (auto simp: bindE_def split: sum.splits)
    also have "\<dots> \<longleftrightarrow> f x = Inr y \<and> length ys' = length xs \<and>
        (\<forall>i<length xs. f (xs ! i) = Inr (ys' ! i))"
      using Cons.IH by simp
    also have "\<dots> \<longleftrightarrow> length (y # ys') = length (x # xs) \<and>
        (\<forall>i<length (x # xs). f ((x # xs) ! i) = Inr ((y # ys') ! i))"
      by (auto simp: nth_Cons split: nat.splits)
    finally show ?thesis using Cons by simp
  qed
qed

lemma each_returns:
  assumes "\<And>x. \<not> isl (f x)"
  shows "each f xs = Inr (map (\<lambda>x. projr (f x)) xs)"
proof (induction xs)
  case Nil
  then show ?case by simp
next
  case (Cons x xs)
  from assms [of x] obtain y where "f x = Inr y" by (cases "f x") auto
  with Cons show ?case by simp
qed

lemma elem_squeeze: "i < length xs \<Longrightarrow> elem (squeeze xs) i = xs ! i"
proof (cases xs)
  case Nil
  assume "i < length xs"
  with Nil show ?thesis by simp
next
  case (Cons x ys)
  assume "i < length xs"
  with Cons show ?thesis by (cases ys) auto
qed

lemma elem_atleast_1d [simp]: "elem (atleast_1d v) i = elem v i"
  by (cases v) simp_all

subsection \<open>The structure of a call\<close>

lemma lookAtSpheroid_Inr_iff:
  "lookAtSpheroid K ell deg lat0 lon0 h0 az tilt = Inr out \<longleftrightarrow>
     altitude_negative h0 = Inr False \<and>
     (\<exists>elems. los_inputs K deg lat0 lon0 h0 az tilt = Inr elems \<and>
        los_finish K deg (axes ell) elems = Inr out)"
  by (auto simp: lookAtSpheroid_def bindE_Inr_iff)

lemma los_geometry_elem:
  assumes "los_geometry K deg rows = Inr elems"
  shows "length elems = length rows"
    and "i < length rows \<Longrightarrow> ray K deg (rows ! i) = Inr (elems ! i)"
proof -
  from assms obtain enus uvws xyzs where
    enus: "each (\<lambda>(lat0, lon0, h0, az, tilt).
             aer2enu K az (elevation deg tilt) (Fin 1) deg) rows = Inr enus"
    and uvws: "each (\<lambda>((lat0, lon0, h0, az, tilt), (e, n, u)).
             enu2uvw K e n u lat0 lon0 deg) (zip rows enus) = Inr uvws"
    and xyzs: "each (\<lambda>(lat0, lon0, h0, az, tilt).
             geodetic2ecef K lat0 lon0 h0 deg) rows = Inr xyzs"
    and elems: "elems = zip uvws xyzs"
    unfolding los_geometry_def by (auto simp: bindE_Inr_iff)
  have len: "length enus = length rows" "length uvws = length rows" "length xyzs = length rows"
    using enus uvws xyzs by (auto simp: each_Inr_iff)
  then show "length elems = length rows"
    by (simp add: elems)
  assume i: "i < length rows"
  obtain lat0 lon0 h0 az tilt where row: "rows ! i = (lat0, lon0, h0, az, tilt)"
    by (cases "rows ! i") auto
  obtain e n up where enu: "enus ! i = (e, n, up)"
    by (cases "enus ! i") auto
  obtain u v w where uvw: "uvws ! i = (u, v, w)"
    by (cases "uvws ! i") auto
  obtain x y z where xyz: "xyzs ! i = (x, y, z)"
    by (cases "xyzs ! i") auto
  have 1: "aer2enu K az (elevation deg tilt) (Fin 1) deg = Inr (e, n, up)"
    using enus i row enu by (auto simp: each_Inr_iff)
  have 2: "enu2uvw K e n up lat0 lon0 deg = Inr (u, v, w)"
    using uvws i row enu uvw len by (auto simp: each_Inr_iff)
  have 3: "geodetic2ecef K lat0 lon0 h0 deg = Inr (x, y, z)"
    using xyzs i row xyz by (auto simp: each_Inr_iff)
  show "ray K deg (rows ! i) = Inr (elems ! i)"
    using 1 2 3 i len by (simp add: row elems uvw xyz)
qed

lemma los_finish_elem:
  assumes "los_finish K deg abc elems = Inr (lat, lon, d)" and "i < length elems"
  shows "elem d i = slant_numpy abc (elems ! i)"
    and "\<exists>alt. surface_point K deg (elems ! i, slant_numpy abc (elems ! i))
           = Inr (elem lat i, elem lon i, alt)"
proof -
  let ?ds = "map (slant_numpy abc) elems"
  from assms(1) obtain geos where
    geos: "each (surface_point K deg) (zip elems ?ds) = Inr geos"
    and out: "lat = squeeze (map fst geos)" "lon = squeeze (map (\<lambda>g. fst (snd g)) geos)"
      "d = squeeze ?ds"
    unfolding los_finish_def by (auto simp: bindE_Inr_iff Let_def)
  have len: "length geos = length elems"
    using geos by (simp add: each_Inr_iff)
  show "elem d i = slant_numpy abc (elems ! i)"
    using assms(2) by (simp add: out elem_squeeze)
  have "surface_point K deg (elems ! i, slant_numpy abc (elems ! i)) = Inr (geos ! i)"
    using geos assms(2) by (auto simp: each_Inr_iff)
  moreover have "geos ! i = (elem lat i, elem lon i, snd (snd (geos ! i)))"
    using assms(2) len by (simp add: out elem_squeeze)
  ultimately show "\<exists>alt. surface_point K deg (elems ! i, slant_numpy abc (elems ! i))
           = Inr (elem lat i, elem lon i, alt)"
    by metis
qed

lemma surface_point_returns:
  assumes "ecef_returns K deg"
  shows "\<not> isl (surface_point K deg p)"
proof -
  obtain uvw xyz d where p: "p = ((uvw, xyz), d)"
    by (metis surj_pair)
  obtain u v w where uvw: "uvw = (u, v, w)"
    by (cases uvw) auto
  obtain x y z where xyz: "xyz = (x, y, z)"
    by (cases xyz) auto
  show ?thesis
    using assms by (simp add: p uvw xyz ecef_returns_def)
qed

lemma los_finish_returns:
  assumes "ecef_returns K deg"
  shows "\<exists>lat lon d. los_finish K deg abc elems = Inr (lat, lon, d)"
  using each_returns [of "surface_point K deg", OF surface_point_returns [OF assms]]
  by (simp add: los_finish_def Let_def)

subsection \<open>Facts about the solver\<close>

lemma math_sqrt_negative: "r < Fin 0 \<Longrightarrow> math_sqrt r = Inl ValueError"
  by (cases r) simp_all

lemma math_sqrt_Inr: "math_sqrt r = Inr s \<Longrightarrow> s = np_sqrt r \<and> \<not> r < Fin 0"
  by (cases r) (auto split: if_splits)

lemma math_sqrt_Inl: "math_sqrt r = Inl e \<Longrightarrow> r < Fin 0"
  by (cases r) (auto split: if_splits)

lemma slant_numpy_negative_radical:
  "los_radical abc uvw xyz < Fin 0 \<Longrightarrow> slant_numpy abc (uvw, xyz) = NaN"
  by (cases abc) (simp add: Let_def)

lemma slant_math_negative_radical:
  "los_radical abc uvw xyz < Fin 0 \<Longrightarrow> slant_math abc (uvw, xyz) = Inr NaN"
  by (cases abc) (simp add: Let_def math_sqrt_negative)

lemma slant_numpy_not_negative: "\<not> slant_numpy abc p < Fin 0"
  by (cases abc; cases p) (simp add: Let_def)

lemma slant_numpy_near_root:
  "slant_numpy abc p \<noteq> NaN \<Longrightarrow> slant_numpy abc p = near_root abc p"
  by (cases abc; cases p) (simp add: Let_def split: if_splits)

lemma slant_math_near_root:
  "slant_math abc p = Inr d \<Longrightarrow> d \<noteq> NaN \<Longrightarrow> d = near_root abc p"
  by (cases abc; cases p)
    (auto simp: Let_def py_truediv_def dest: math_sqrt_Inr split: sum.splits if_splits)

lemma surface_point_NaN:
  "surface_point K deg ((uvw, xyz), NaN) = ecef2geodetic K NaN NaN NaN deg"
  by (cases uvw; cases xyz) simp

lemma value_NaN:
  "x = NaN \<or> y = NaN \<or> z = NaN \<Longrightarrow> los_value abc uvw (x, y, z) = NaN"
  by (cases abc; cases uvw) auto

lemma radical_NaN:
  "x = NaN \<or> y = NaN \<or> z = NaN \<Longrightarrow> los_radical abc uvw (x, y, z) = NaN"
  by (cases abc; cases uvw) auto

lemma slant_numpy_NaN_position:
  "x = NaN \<or> y = NaN \<or> z = NaN \<Longrightarrow> slant_numpy abc (uvw, (x, y, z)) = NaN"
  by (cases abc) (simp add: Let_def value_NaN radical_NaN del: los_value.simps los_radical.simps)

lemma slant_math_NaN_position:
  "x = NaN \<or> y = NaN \<or> z = NaN \<Longrightarrow> los_magnitude abc uvw \<noteq> Fin 0 \<Longrightarrow>
     slant_math abc (uvw, (x, y, z)) = Inr NaN"
  by (cases abc)
    (simp add: Let_def value_NaN radical_NaN py_truediv_def del: los_value.simps los_radical.simps los_magnitude.simps)

lemma each_pointwise:
  assumes "\<And>x. x \<in> set xs \<Longrightarrow> f x = Inr (g x)"
  shows "each f xs = Inr (map g xs)"
  using assms by (induction xs) simp_all

lemma ray_position:
  assumes "ray K deg (lat0, lon0, h0, az, tilt) = Inr (uvw, xyz)"
  shows "geodetic2ecef K lat0 lon0 h0 deg = Inr xyz"
  using assms by (auto simp: bindE_Inr_iff)

lemma los_inputs_elem:
  assumes "los_inputs K deg lat0 lon0 h0 az tilt = Inr elems" and "i < length elems"
  shows "ray K deg (elem lat0 i, elem lon0 i, elem h0 i, elem az i, elem tilt i)
           = Inr (elems ! i)"
proof -
  from assms(1) obtain n where
    n: "common_len (dims (atleast_1d lat0) @ dims (atleast_1d lon0) @ dims h0 @ dims az @
          dims (atleast_1d tilt)) = Inr n"
    and geo: "los_geometry K deg
        (map (\<lambda>i. (elem lat0 i, elem lon0 i, elem h0 i, elem az i, elem tilt i)) [0..<n])
        = Inr elems"
    by (auto simp: los_inputs_def broadcast_rows_def bindE_Inr_iff Let_def)
  from los_geometry_elem(1) [OF geo] have len: "length elems = n"
    by simp
  from los_geometry_elem(2) [OF geo, of i] assms(2) len show ?thesis
    by simp
qed

lemma nan_altitude_position:
  assumes "altitude_nan K deg" and "ray K deg (lat0, lon0, NaN, az, tilt) = Inr (uvw, xyz)"
  shows "\<exists>x y z. xyz = (x, y, z) \<and> (x = NaN \<or> y = NaN \<or> z = NaN)"
proof -
  from ray_position [OF assms(2)] have "geodetic2ecef K lat0 lon0 NaN deg = Inr xyz" .
  with assms(1) [unfolded altitude_nan_def, rule_format, of lat0 lon0] show ?thesis
    by (cases xyz) auto
qed

lemma slant_numpy_eq:
  "slant_numpy abc (uvw, xyz) =
     (if los_radical abc uvw xyz < Fin 0 \<or> near_root abc (uvw, xyz) < Fin 0 then NaN
      else near_root abc (uvw, xyz))"
  by (cases abc) (simp add: Let_def)

lemma slant_math_eq:
  "slant_math abc (uvw, xyz) =
     (if los_radical abc uvw xyz < Fin 0 then Inr NaN
      else if los_magnitude abc uvw = Fin 0 then Inl ZeroDivisionError
      else Inr (near_root abc (uvw, xyz)))"
proof (cases abc)
  case (fields a b c)
  show ?thesis
  proof (cases "math_sqrt (los_radical abc uvw xyz)")
    case (Inl e)
    then show ?thesis
      using math_sqrt_Inl [OF Inl]
      by (simp add: fields Let_def del: los_value.simps los_radical.simps los_magnitude.simps)
  next
    case (Inr s)
    then show ?thesis
      using math_sqrt_Inr [OF Inr]
      by (simp add: fields Let_def py_truediv_def
          del: los_value.simps los_radical.simps los_magnitude.simps)
  qed
qed

lemma value_Fin:
  "\<exists>V. los_value (Fin a, Fin b, Fin c) (Fin u, Fin v, Fin w) (Fin x, Fin y, Fin z) = Fin V"
  by simp

lemma roots_Fin:
  assumes "los_value abc uvw xyz = Fin V" and "los_radical abc uvw xyz = Fin r"
    and "los_magnitude abc uvw = Fin M" and "abc = (Fin a, Fin b, Fin c)"
    and "0 \<le> r" and "M \<noteq> 0"
  shows "near_root abc (uvw, xyz) = Fin ((V - a * b * c * sqrt r) / M)"
    and "far_root abc (uvw, xyz) = Fin ((V + a * b * c * sqrt r) / M)"
  using assms(1-3,5,6) unfolding assms(4)
  by (simp_all del: los_value.simps los_radical.simps los_magnitude.simps)

lemma inf_of_sign_not_Fin [simp]: "inf_of_sign s \<noteq> Fin d"
  by (simp add: inf_of_sign_def)

lemma triaxial_quadratic_meaning:
  fixes ax ay az :: real
  assumes "ax \<noteq> 0" and "ay \<noteq> 0" and "az \<noteq> 0"
    and "triaxial_quadratic (ax, ay, az) (u, v, w) (x, y, z) = (A, B, C)"
  shows "A * d\<^sup>2 + B * d + C = 0 \<longleftrightarrow>
         on_ellipsoid (ax, ay, az) (x + d * u, y + d * v, z + d * w)"
proof -
  have A: "A = ay\<^sup>2 * az\<^sup>2 * u\<^sup>2 + ax\<^sup>2 * az\<^sup>2 * v\<^sup>2 + ax\<^sup>2 * ay\<^sup>2 * w\<^sup>2"
    and B: "B = 2 * (ay\<^sup>2 * az\<^sup>2 * u * x + ax\<^sup>2 * az\<^sup>2 * v * y + ax\<^sup>2 * ay\<^sup>2 * w * z)"
    and C: "C = ay\<^sup>2 * az\<^sup>2 * x\<^sup>2 + ax\<^sup>2 * az\<^sup>2 * y\<^sup>2 + ax\<^sup>2 * ay\<^sup>2 * z\<^sup>2 - ax\<^sup>2 * ay\<^sup>2 * az\<^sup>2"
    using assms(4) by auto
  have "((x + d * u) / ax)\<^sup>2 + ((y + d * v) / ay)\<^sup>2 + ((z + d * w) / az)\<^sup>2 - 1
        = (A * d\<^sup>2 + B * d + C) / (ax\<^sup>2 * ay\<^sup>2 * az\<^sup>2)"
    unfolding A B C using assms(1-3) by (simp add: field_simps power2_eq_square)
  then show ?thesis
    using assms(1-3) by (auto simp: field_simps)
qed

lemma solver_quantities:
  assumes "triaxial_quadratic (a, b, c) (u, v, w) (x, y, z) = (A, B, C)"
  shows "los_magnitude (Fin a, Fin b, Fin c) (Fin u, Fin v, Fin w) = Fin A"
    and "los_value (Fin a, Fin b, Fin c) (Fin u, Fin v, Fin w) (Fin x, Fin y, Fin z)
           = Fin (- B / 2)"
    and "\<exists>r. los_radical (Fin a, Fin b, Fin c) (Fin u, Fin v, Fin w) (Fin x, Fin y, Fin z)
             = Fin r \<and> (a * b * c)\<^sup>2 * r = (B / 2)\<^sup>2 - A * C"
proof -
  have A: "A = b\<^sup>2 * c\<^sup>2 * u\<^sup>2 + a\<^sup>2 * c\<^sup>2 * v\<^sup>2 + a\<^sup>2 * b\<^sup>2 * w\<^sup>2"
    and B: "B = 2 * (b\<^sup>2 * c\<^sup>2 * u * x + a\<^sup>2 * c\<^sup>2 * v * y + a\<^sup>2 * b\<^sup>2 * w * z)"
    and C: "C = b\<^sup>2 * c\<^sup>2 * x\<^sup>2 + a\<^sup>2 * c\<^sup>2 * y\<^sup>2 + a\<^sup>2 * b\<^sup>2 * z\<^sup>2 - a\<^sup>2 * b\<^sup>2 * c\<^sup>2"
    using assms by auto
  show "los_magnitude (Fin a, Fin b, Fin c) (Fin u, Fin v, Fin w) = Fin A"
    unfolding A by (simp add: algebra_simps)
  show "los_value (Fin a, Fin b, Fin c) (Fin u, Fin v, Fin w) (Fin x, Fin y, Fin z)
      = Fin (- B / 2)"
    unfolding B by (simp add: algebra_simps)
  define R where "R =
      a\<^sup>2 * b\<^sup>2 * w\<^sup>2 + a\<^sup>2 * c\<^sup>2 * v\<^sup>2 - a\<^sup>2 * v\<^sup>2 * z\<^sup>2 + 2 * a\<^sup>2 * v * w * y * z - a\<^sup>2 * w\<^sup>2 * y\<^sup>2
      + b\<^sup>2 * c\<^sup>2 * u\<^sup>2 - b\<^sup>2 * u\<^sup>2 * z\<^sup>2 + 2 * b\<^sup>2 * u * w * x * z - b\<^sup>2 * w\<^sup>2 * x\<^sup>2
      - c\<^sup>2 * u\<^sup>2 * y\<^sup>2 + 2 * c\<^sup>2 * u * v * x * y - c\<^sup>2 * v\<^sup>2 * x\<^sup>2"
  have "los_radical (Fin a, Fin b, Fin c) (Fin u, Fin v, Fin w) (Fin x, Fin y, Fin z) = Fin R"
    by (simp add: R_def)
  moreover have "(a * b * c)\<^sup>2 * R = (B / 2)\<^sup>2 - A * C"
    unfolding A B C R_def by (simp add: power2_eq_square algebra_simps)
  ultimately show "\<exists>r. los_radical (Fin a, Fin b, Fin c) (Fin u, Fin v, Fin w)
      (Fin x, Fin y, Fin z) = Fin r \<and> (a * b * c)\<^sup>2 * r = (B / 2)\<^sup>2 - A * C"
    by blast
qed

lemma near_root_solves:
  assumes tq: "triaxial_quadratic (a, b, c) (u, v, w) (x, y, z) = (A, B, C)"
    and d: "near_root (Fin a, Fin b, Fin c) ((Fin u, Fin v, Fin w), (Fin x, Fin y, Fin z))
      = Fin d"
  shows "A * d\<^sup>2 + B * d + C = 0"
proof -
  note q = solver_quantities [OF tq]
  from q(3) obtain r where
    r: "los_radical (Fin a, Fin b, Fin c) (Fin u, Fin v, Fin w) (Fin x, Fin y, Fin z) = Fin r"
    and disc: "(a * b * c)\<^sup>2 * r = (B / 2)\<^sup>2 - A * C"
    by blast
  have nonneg: "0 \<le> r"
  proof (rule ccontr)
    assume "\<not> 0 \<le> r"
    then show False
      using d by (simp add: q(1,2) r del: los_value.simps los_radical.simps los_magnitude.simps)
  qed
  have A: "A \<noteq> 0"
  proof
    assume "A = 0"
    then show False
      using d nonneg
      by (simp add: q(1,2) r del: los_value.simps los_radical.simps los_magnitude.simps)
  qed
  define k where "k = a * b * c * sqrt r"
  have k: "k\<^sup>2 = (B / 2)\<^sup>2 - A * C"
    using nonneg disc by (simp add: k_def power_mult_distrib)
  have dk: "d = (- B / 2 - k) / A"
    using d nonneg A
    by (simp add: q(1,2) r k_def del: los_value.simps los_radical.simps los_magnitude.simps)
  have "A * (A * d\<^sup>2 + B * d + C) = (A * d)\<^sup>2 + B * (A * d) + A * C"
    by (simp add: power2_eq_square algebra_simps)
  also have "A * d = - B / 2 - k"
    using A by (simp add: dk)
  also have "(- B / 2 - k)\<^sup>2 + B * (- B / 2 - k) + A * C = k\<^sup>2 - (B / 2)\<^sup>2 + A * C"
    by (simp add: power2_eq_square algebra_simps)
  also have "\<dots> = 0"
    by (simp add: k)
  finally show ?thesis
    using A by simp
qed

lemma common_len_sound:
  assumes "common_len ls = Inr n" and "l \<in> set ls"
  shows "l = 1 \<or> l = n"
proof (cases "filter (\<lambda>l. l \<noteq> 1) ls")
  case Nil
  with assms(2) show ?thesis
    by (auto simp: filter_empty_conv)
next
  case (Cons m ms)
  with assms(1) have n: "m = n" and all: "list_all (\<lambda>k. k = n) ms"
    by (auto simp: common_len_def split: if_splits)
  show ?thesis
  proof (cases "l = 1")
    case False
    with assms(2) have "l \<in> set (filter (\<lambda>l. l \<noteq> 1) ls)"
      by simp
    with Cons n all show ?thesis
      by (auto simp: list_all_iff)
  qed simp
qed

lemma los_geometry_single:
  assumes "ray K deg row = Inr p"
  shows "los_geometry K deg [row] = Inr [p]"
proof -
  obtain lat0 lon0 h0 az tilt where row: "row = (lat0, lon0, h0, az, tilt)"
    by (cases row) auto
  from assms show ?thesis
    unfolding row los_geometry_def
    by (auto simp: bindE_Inr_iff)
qed

lemma scalar_inputs:
  assumes "ray K deg (lat0, lon0, h0, az, tilt) = Inr p"
  shows "los_inputs K deg (Sc lat0) (Sc lon0) (Sc h0) (Sc az) (Sc tilt) = Inr [p]"
  using los_geometry_single [OF assms]
  by (simp add: los_inputs_def broadcast_rows_def common_len_def)

subsection \<open>Concrete calls\<close>

lemma axis_collab_simps [simp]:
  "aer2enu axis_collab az el r deg =
     Inr (if el = NaN then (NaN, NaN, NaN)
          else (Fin 0, if el = Fin 0 then r else Fin 0,
                if el < Fin 0 then - r else if Fin 0 < el then r else Fin 0))"
  "enu2uvw axis_collab e n u lat0 lon0 deg = Inr (u, e, n)"
  "geodetic2ecef axis_collab lat0 lon0 h0 deg = Inr (Fin 6378137 + h0, Fin 0, Fin 0)"
  "ecef2geodetic axis_collab x y z deg =
     Inr (if x = NaN \<or> y = NaN \<or> z = NaN then (NaN, NaN, NaN)
          else (Fin 0, if x < Fin 0 then (if deg then Fin 180 else Fin pi) else Fin 0,
                (if x < Fin 0 then - x else x) - Fin 6378137))"
  by (simp_all add: axis_collab_def)

lemma axis_collab_contracts [simp]:
  "ecef_returns axis_collab deg" "ecef_nan axis_collab deg"
  by (simp_all add: ecef_returns_def ecef_nan_def)

lemma upt_2: "[0..<2] = [0, 1]"
  by (simp add: upt_rec numeral_2_eq_2)

lemma two_sights:
  "los_inputs axis_collab True (Arr [Fin 0, Fin 0]) (Sc (Fin 0)) (Sc (Fin 600000)) (Sc (Fin 0))
     (Arr [Fin 0, Fin 90])
   = Inr [((Fin (- 1), Fin 0, Fin 0), (Fin 6978137, Fin 0, Fin 0)),
          ((Fin 0, Fin 0, Fin 1), (Fin 6978137, Fin 0, Fin 0))]"
  by (simp add: los_inputs_def broadcast_rows_def common_len_def los_geometry_def
      elevation_def upt_2)

lemma horizon_sight:
  "ray axis_collab True (Fin 0, Fin 0, Fin 600000, Fin 0, Fin 90)
   = Inr ((Fin 0, Fin 0, Fin 1), (Fin 6978137, Fin 0, Fin 0))"
  by (simp add: elevation_def)

lemma horizon_radical:
  "los_radical (axes None) (Fin 0, Fin 0, Fin 1) (Fin 6978137, Fin 0, Fin 0) < Fin 0"
  by simp

lemma axis_collab_altitude_nan [simp]: "altitude_nan axis_collab deg"
  by (simp add: altitude_nan_def)

lemma nan_sight:
  "ray axis_collab True (Fin 0, Fin 0, NaN, Fin 0, Fin 0)
     = Inr ((Fin (- 1), Fin 0, Fin 0), (NaN, Fin 0, Fin 0))"
  by (simp add: elevation_def)

lemma nan_sights:
  "los_inputs axis_collab True (Sc (Fin 0)) (Sc (Fin 0)) (Sc NaN) (Sc (Fin 0)) (Sc (Fin 0))
     = Inr [((Fin (- 1), Fin 0, Fin 0), (NaN, Fin 0, Fin 0))]"
  by (simp add: los_inputs_def broadcast_rows_def common_len_def los_geometry_def
      elevation_def)

lemma axis_quantities:
  assumes "u = 1 \<or> u = - 1"
  shows "los_value (Fin a, Fin a, Fin c) (Fin u, Fin 0, Fin 0) (Fin x, Fin 0, Fin 0)
           = Fin (- ((a * c)\<^sup>2 * u * x))"
    and "los_radical (Fin a, Fin a, Fin c) (Fin u, Fin 0, Fin 0) (Fin x, Fin 0, Fin 0)
           = Fin ((a * c)\<^sup>2)"
    and "los_magnitude (Fin a, Fin a, Fin c) (Fin u, Fin 0, Fin 0) = Fin ((a * c)\<^sup>2)"
  using assms by (auto simp: power2_eq_square algebra_simps)

lemma axis_near_root:
  assumes "u = 1 \<or> u = - 1" and "0 < a" and "0 < c"
  shows "near_root (Fin a, Fin a, Fin c) ((Fin u, Fin 0, Fin 0), (Fin x, Fin 0, Fin 0))
           = Fin (- u * x - a)"
proof -
  have ac: "a * c \<noteq> 0" "0 \<le> a * c"
    using assms(2,3) by simp_all
  have "(- ((a * c)\<^sup>2 * u * x) - a * a * c * (a * c)) / (a * c)\<^sup>2 = - u * x - a"
    using ac(1) by (simp add: field_simps power2_eq_square)
  then show ?thesis
    using ac
    by (simp add: axis_quantities [OF assms(1)] real_sqrt_abs
        del: los_value.simps los_radical.simps los_magnitude.simps)
qed

lemma axis_far_root:
  assumes "u = 1 \<or> u = - 1" and "0 < a" and "0 < c"
  shows "far_root (Fin a, Fin a, Fin c) ((Fin u, Fin 0, Fin 0), (Fin x, Fin 0, Fin 0))
           = Fin (- u * x + a)"
proof -
  have ac: "a * c \<noteq> 0" "0 \<le> a * c"
    using assms(2,3) by simp_all
  have "(- ((a * c)\<^sup>2 * u * x) + a * a * c * (a * c)) / (a * c)\<^sup>2 = - u * x + a"
    using ac(1) by (simp add: field_simps power2_eq_square)
  then show ?thesis
    using ac
    by (simp add: axis_quantities [OF assms(1)] real_sqrt_abs
        del: los_value.simps los_radical.simps los_magnitude.simps)
qed

lemma axis_slant_numpy:
  assumes "u = 1 \<or> u = - 1" and "0 < a" and "0 < c"
  shows "slant_numpy (Fin a, Fin a, Fin c) ((Fin u, Fin 0, Fin 0), (Fin x, Fin 0, Fin 0))
           = (if - u * x - a < 0 then NaN else Fin (- u * x - a))"
  by (simp add: slant_numpy_eq axis_near_root [OF assms] axis_quantities(2) [OF assms(1)]
      del: slant_numpy.simps near_root.simps los_radical.simps)

lemma axis_slant_math:
  assumes "u = 1 \<or> u = - 1" and "0 < a" and "0 < c"
  shows "slant_math (Fin a, Fin a, Fin c) ((Fin u, Fin 0, Fin 0), (Fin x, Fin 0, Fin 0))
           = Inr (Fin (- u * x - a))"
  using assms(2,3)
  by (simp add: slant_math_eq axis_near_root [OF assms] axis_quantities(2,3) [OF assms(1)]
      del: slant_math.simps near_root.simps los_radical.simps los_magnitude.simps)

text \<open>The call of the specification's first scenario, and the same observer looking
  straight up (tilt 180 degrees).\<close>

lemma nadir_numpy:
  "lookAtSpheroid axis_collab None True (Sc (Fin 0)) (Sc (Fin 0)) (Sc (Fin 600000))
     (Sc (Fin 0)) (Sc (Fin 0)) = Inr (Sc (Fin 0), Sc (Fin 0), Sc (Fin 600000))"
  by (simp add: lookAtSpheroid_def los_inputs_def broadcast_rows_def common_len_def
      los_geometry_def elevation_def los_finish_def axis_slant_numpy
      del: slant_numpy.simps)

lemma zenith_numpy:
  "lookAtSpheroid axis_collab None True (Sc (Fin 0)) (Sc (Fin 0)) (Sc (Fin 600000))
     (Sc (Fin 0)) (Sc (Fin 180)) = Inr (Sc NaN, Sc NaN, Sc NaN)"
  by (simp add: lookAtSpheroid_def los_inputs_def broadcast_rows_def common_len_def
      los_geometry_def elevation_def los_finish_def axis_slant_numpy
      del: slant_numpy.simps)

lemma nadir_math:
  "lookAtSpheroid_math axis_collab None True (Fin 0) (Fin 0) (Fin 600000) (Fin 0) (Fin 0)
     = Inr (Fin 0, Fin 0, Fin 600000)"
  by (simp add: lookAtSpheroid_math_def elevation_def axis_slant_math del: slant_math.simps)

lemma nadir_sight:
  "ray axis_collab True (Fin 0, Fin 0, Fin 600000, Fin 0, Fin 0)
     = Inr ((Fin (- 1), Fin 0, Fin 0), (Fin 6978137, Fin 0, Fin 0))"
  by (simp add: elevation_def)

lemma nadir_sights:
  "los_inputs axis_collab True (Sc (Fin 0)) (Sc (Fin 0)) (Sc (Fin 600000)) (Sc (Fin 0))
     (Sc (Fin 0)) = Inr [((Fin (- 1), Fin 0, Fin 0), (Fin 6978137, Fin 0, Fin 0))]"
  by (simp add: los_inputs_def broadcast_rows_def common_len_def los_geometry_def
      elevation_def)

lemma nadir_radical:
  "los_radical (axes None) (Fin (- 1), Fin 0, Fin 0) (Fin 6978137, Fin 0, Fin 0)
     = Fin ((6378137 * 6356752.314245)\<^sup>2)"
  by (simp add: axis_quantities(2) del: los_radical.simps)

lemma nadir_slant_numpy:
  "slant_numpy (axes None) ((Fin (- 1), Fin 0, Fin 0), (Fin 6978137, Fin 0, Fin 0)) = Fin 600000"
  by (simp add: axis_slant_numpy del: slant_numpy.simps)

lemma axis_collab_returns [simp]: "collab_returns axis_collab deg"
  by (simp add: collab_returns_def)

lemma horizon_slant_numpy:
  "slant_numpy (axes None) ((Fin 0, Fin 0, Fin 1), (Fin 6978137, Fin 0, Fin 0)) = NaN"
  using horizon_radical by (rule slant_numpy_negative_radical)

lemma two_sights_call:
  "lookAtSpheroid axis_collab None True (Arr [Fin 0, Fin 0]) (Sc (Fin 0)) (Sc (Fin 600000))
     (Sc (Fin 0)) (Arr [Fin 0, Fin 90])
   = Inr (Arr [Fin 0, NaN], Arr [Fin 0, NaN], Arr [Fin 600000, NaN])"
  by (simp add: lookAtSpheroid_def two_sights los_finish_def nadir_slant_numpy
      horizon_slant_numpy del: slant_numpy.simps axes_None)

lemma horizon_numpy:
  "lookAtSpheroid axis_collab None True (Sc (Fin 0)) (Sc (Fin 0)) (Sc (Fin 600000))
     (Sc (Fin 0)) (Sc (Fin 90)) = Inr (Sc NaN, Sc NaN, Sc NaN)"
  by (simp add: lookAtSpheroid_def scalar_inputs [OF horizon_sight] los_finish_def
      horizon_slant_numpy del: slant_numpy.simps axes_None)

subsection \<open>The divisor\<close>

text \<open>
  Over exact reals the divisor \<open>magnitude\<close> of line 105 is positive for positive
  semi-axes and a nonzero direction, and the solver after the fallback to \<^verbatim>\<open>math\<close>, the
  only place where a zero divisor raises, raises no ZeroDivisionError.

  This is a fact of the exact arithmetic of this development and not of the floats of
  the program, whose products round: for positive semi-axes of about \<open>1e-81\<close> or less
  (\<open>2 ** -600\<close>, say) \<^verbatim>\<open>a ** 2 * b ** 2\<close> underflows to \<open>0.0\<close>, the divisor is \<open>0.0\<close> and the
  quotient of line 109 raises ZeroDivisionError after the fallback. Whether the divisor
  of the program is positive is a question of floating-point rounding, which is not
  modelled here: the lemma below does not decide claim C8.
\<close>

lemma magnitude_positive_exact:
  assumes "semimajor_axis (ellipsoid_used ell) = Fin a" and "0 < a"
    and "semiminor_axis (ellipsoid_used ell) = Fin c" and "0 < c"
    and "(u, v, w) \<noteq> (0, 0, 0)"
  shows "\<exists>m. los_magnitude (axes ell) (Fin u, Fin v, Fin w) = Fin m \<and> 0 < m \<and>
           slant_math (axes ell) ((Fin u, Fin v, Fin w), xyz) \<noteq> Inl ZeroDivisionError"
proof -
  let ?m = "a\<^sup>2 * a\<^sup>2 * w\<^sup>2 + a\<^sup>2 * c\<^sup>2 * v\<^sup>2 + a\<^sup>2 * c\<^sup>2 * u\<^sup>2"
  have abc: "axes ell = (Fin a, Fin a, Fin c)"
    using assms(1,3) by (simp add: axes_used)
  have m: "los_magnitude (axes ell) (Fin u, Fin v, Fin w) = Fin ?m"
    unfolding abc by (rule magnitude_Fin)
  have pos: "0 < ?m"
    using assms(2,2,4,5) by (rule magnitude_pos)
  have "slant_math (Fin a, Fin a, Fin c) ((Fin u, Fin v, Fin w), xyz) \<noteq> Inl ZeroDivisionError"
    using pos
    by (simp add: Let_def py_truediv_def del: los_value.simps los_radical.simps split: sum.splits)
  with m pos show ?thesis
    unfolding abc by blast
qed

subsection \<open>The altitude guard\<close>

text \<open>
  Claim C4. For every scalar altitude \<open>h0 < 0\<close> the call fails with the error of line 67
  (a ValueError), whatever the other arguments, the ellipsoid and the unit flag are,
  and before any other computation: the result does not depend on the collaborators,
  not even on whether they would raise. Both environments.
\<close>

theorem negative_altitude_rejected:
  assumes "h0 < Fin 0"
  shows "lookAtSpheroid K ell deg lat0 lon0 (Sc h0) az tilt = Inl ValueError \<and>
         lookAtSpheroid_math K ell deg lat0' lon0' h0 az' tilt' = Inl ValueError"
  using assms by (simp add: lookAtSpheroid_def lookAtSpheroid_math_def)

theorem negative_altitude_rejected_witness:
  "Fin (- 1) < Fin 0 \<and>
   lookAtSpheroid raising_collab None True (Sc (Fin 0)) (Sc (Fin 0)) (Sc (Fin (- 1)))
     (Sc (Fin 0)) (Sc (Fin 0)) = Inl ValueError \<and>
   lookAtSpheroid_math raising_collab None True (Fin 0) (Fin 0) (Fin (- 1)) (Fin 0) (Fin 0)
     = Inl ValueError"
proof -
  have neg: "Fin (- 1) < Fin 0" by simp
  show ?thesis
    using neg negative_altitude_rejected [OF neg] by simp
qed

text \<open>
  Claim C10. When the altitude is an array of two or more elements, the guard of line 66
  takes the truth value of an array of several booleans, and the call raises (a
  ValueError), whatever the elements are, non-negative ones included.
\<close>

theorem altitude_array_rejected:
  assumes "2 \<le> length hs"
  shows "lookAtSpheroid K ell deg lat0 lon0 (Arr hs) az tilt = Inl ValueError"
proof -
  from assms obtain x y ys where "hs = x # y # ys"
    by (cases hs; cases "tl hs") auto
  then show ?thesis by (simp add: lookAtSpheroid_def)
qed

theorem altitude_array_rejected_witness:
  "2 \<le> length [Fin 600000, Fin 600000] \<and>
   lookAtSpheroid axis_collab None True (Arr [Fin 0, Fin 0]) (Arr [Fin 0, Fin 0])
     (Arr [Fin 600000, Fin 600000]) (Arr [Fin 0, Fin 0]) (Arr [Fin 0, Fin 0]) = Inl ValueError"
proof -
  have len: "2 \<le> length [Fin 600000, Fin 600000]" by simp
  show ?thesis
    using len altitude_array_rejected [OF len] by simp
qed

subsection \<open>The sentinel\<close>

lemma negative_radical_numpy:
  assumes guard: "altitude_negative h0 = Inr False"
    and inputs: "los_inputs K deg lat0 lon0 h0 az tilt = Inr elems"
    and returns: "ecef_returns K deg"
    and nan: "ecef_nan K deg"
  shows "\<exists>lat lon d. lookAtSpheroid K ell deg lat0 lon0 h0 az tilt = Inr (lat, lon, d) \<and>
           (\<forall>i<length elems.
              los_radical (axes ell) (fst (elems ! i)) (snd (elems ! i)) < Fin 0 \<longrightarrow>
              elem lat i = NaN \<and> elem lon i = NaN \<and> elem d i = NaN)"
proof -
  from los_finish_returns [OF returns] obtain lat lon d where
    fin: "los_finish K deg (axes ell) elems = Inr (lat, lon, d)"
    by blast
  have call: "lookAtSpheroid K ell deg lat0 lon0 h0 az tilt = Inr (lat, lon, d)"
    using guard inputs fin by (simp add: lookAtSpheroid_Inr_iff)
  have "elem lat i = NaN \<and> elem lon i = NaN \<and> elem d i = NaN"
    if i: "i < length elems"
      and neg: "los_radical (axes ell) (fst (elems ! i)) (snd (elems ! i)) < Fin 0" for i
  proof -
    obtain uvw xyz where e: "elems ! i = (uvw, xyz)"
      by (cases "elems ! i") auto
    have d: "slant_numpy (axes ell) (elems ! i) = NaN"
      using neg by (simp add: e slant_numpy_negative_radical)
    from los_finish_elem(2) [OF fin i] obtain alt where
      "surface_point K deg (elems ! i, NaN) = Inr (elem lat i, elem lon i, alt)"
      by (auto simp: d)
    then have "ecef2geodetic K NaN NaN NaN deg = Inr (elem lat i, elem lon i, alt)"
      by (simp add: e surface_point_NaN)
    with nan have "elem lat i = NaN" "elem lon i = NaN"
      by (auto simp: ecef_nan_def)
    moreover have "elem d i = NaN"
      using los_finish_elem(1) [OF fin i] d by simp
    ultimately show ?thesis by simp
  qed
  with call show ?thesis by blast
qed

lemma negative_radical_math:
  assumes guard: "\<not> h0 < Fin 0"
    and sight: "ray K deg (lat0, lon0, h0, az, tilt) = Inr (uvw, xyz)"
    and neg: "los_radical (axes ell) uvw xyz < Fin 0"
    and nan: "ecef_nan K deg"
  shows "lookAtSpheroid_math K ell deg lat0 lon0 h0 az tilt = Inr (NaN, NaN, NaN)"
proof -
  from nan obtain alt where "ecef2geodetic K NaN NaN NaN deg = Inr (NaN, NaN, alt)"
    by (auto simp: ecef_nan_def)
  then show ?thesis
    using guard sight slant_math_negative_radical [OF neg]
    by (simp add: lookAtSpheroid_math_def surface_point_NaN del: ray.simps)
qed

text \<open>
  Claim C1. Where the discriminant \<open>radical\<close> of lines 90 to 103 is negative, the call
  raises no exception and returns NaN for the latitude, the longitude and the slant
  range; with arrays this holds for each element whose discriminant is negative.

  With numpy: the guard has passed, lines 72 to 87 have produced the directions and
  positions \<open>elems\<close>, and \<^verbatim>\<open>ecef2geodetic\<close> raises at no point and returns NaN angles for
  the NaN point. After the fallback: the same for the one element.
\<close>

theorem negative_radical_gives_sentinel:
  "(altitude_negative h0 = Inr False \<and>
    los_inputs K deg lat0 lon0 h0 az tilt = Inr elems \<and>
    ecef_returns K deg \<and> ecef_nan K deg \<longrightarrow>
      (\<exists>lat lon d. lookAtSpheroid K ell deg lat0 lon0 h0 az tilt = Inr (lat, lon, d) \<and>
         (\<forall>i<length elems.
            los_radical (axes ell) (fst (elems ! i)) (snd (elems ! i)) < Fin 0 \<longrightarrow>
            elem lat i = NaN \<and> elem lon i = NaN \<and> elem d i = NaN))) \<and>
   (\<not> h0' < Fin 0 \<and>
    ray K deg (lat0', lon0', h0', az', tilt') = Inr (uvw, xyz) \<and>
    los_radical (axes ell) uvw xyz < Fin 0 \<and> ecef_nan K deg \<longrightarrow>
      lookAtSpheroid_math K ell deg lat0' lon0' h0' az' tilt' = Inr (NaN, NaN, NaN))"
  using negative_radical_numpy negative_radical_math by blast

theorem negative_radical_gives_sentinel_witness:
  "(\<exists>lat lon d.
      lookAtSpheroid axis_collab None True (Arr [Fin 0, Fin 0]) (Sc (Fin 0)) (Sc (Fin 600000))
        (Sc (Fin 0)) (Arr [Fin 0, Fin 90]) = Inr (lat, lon, d) \<and>
      elem lat 1 = NaN \<and> elem lon 1 = NaN \<and> elem d 1 = NaN) \<and>
   lookAtSpheroid_math axis_collab None True (Fin 0) (Fin 0) (Fin 600000) (Fin 0) (Fin 90)
     = Inr (NaN, NaN, NaN)"
proof -
  let ?elems = "[((Fin (- 1), Fin 0, Fin 0), (Fin 6978137, Fin 0, Fin 0)),
                 ((Fin 0, Fin 0, Fin 1), (Fin 6978137, Fin 0, Fin 0))]"
  note inst = negative_radical_gives_sentinel [where K = axis_collab and deg = True
      and ell = None and ?h0.0 = "Sc (Fin 600000)" and ?lat0.0 = "Arr [Fin 0, Fin 0]"
      and ?lon0.0 = "Sc (Fin 0)" and az = "Sc (Fin 0)" and tilt = "Arr [Fin 0, Fin 90]"
      and elems = ?elems
      and h0' = "Fin 600000" and lat0' = "Fin 0" and lon0' = "Fin 0" and az' = "Fin 0"
      and tilt' = "Fin 90" and uvw = "(Fin 0, Fin 0, Fin 1)"
      and xyz = "(Fin 6978137, Fin 0, Fin 0)"]
  have "\<exists>lat lon d.
      lookAtSpheroid axis_collab None True (Arr [Fin 0, Fin 0]) (Sc (Fin 0)) (Sc (Fin 600000))
        (Sc (Fin 0)) (Arr [Fin 0, Fin 90]) = Inr (lat, lon, d) \<and>
      (\<forall>i<length ?elems.
         los_radical (axes None) (fst (?elems ! i)) (snd (?elems ! i)) < Fin 0 \<longrightarrow>
         elem lat i = NaN \<and> elem lon i = NaN \<and> elem d i = NaN)"
    by (rule conjunct1 [OF inst, THEN mp]) (simp add: two_sights)
  then obtain lat lon d where
    call: "lookAtSpheroid axis_collab None True (Arr [Fin 0, Fin 0]) (Sc (Fin 0))
        (Sc (Fin 600000)) (Sc (Fin 0)) (Arr [Fin 0, Fin 90]) = Inr (lat, lon, d)"
    and all: "\<And>i. i < length ?elems \<Longrightarrow>
         los_radical (axes None) (fst (?elems ! i)) (snd (?elems ! i)) < Fin 0 \<Longrightarrow>
         elem lat i = NaN \<and> elem lon i = NaN \<and> elem d i = NaN"
    by blast
  have "elem lat 1 = NaN \<and> elem lon 1 = NaN \<and> elem d 1 = NaN"
    by (rule all) simp_all
  moreover have "lookAtSpheroid_math axis_collab None True (Fin 0) (Fin 0) (Fin 600000)
      (Fin 0) (Fin 90) = Inr (NaN, NaN, NaN)"
    by (rule conjunct2 [OF inst, THEN mp])
      (simp add: horizon_sight horizon_radical del: ray.simps los_radical.simps axes_None)
  ultimately show ?thesis
    using call by blast
qed

lemma nan_altitude_numpy:
  assumes inputs: "los_inputs K deg lat0 lon0 (Sc NaN) az tilt = Inr elems"
    and alt: "altitude_nan K deg"
    and nan: "ecef_nan K deg"
  shows "\<exists>lat lon d. lookAtSpheroid K ell deg lat0 lon0 (Sc NaN) az tilt = Inr (lat, lon, d) \<and>
           (\<forall>i<length elems. elem lat i = NaN \<and> elem lon i = NaN \<and> elem d i = NaN)"
proof -
  from nan obtain h where geo: "ecef2geodetic K NaN NaN NaN deg = Inr (NaN, NaN, h)"
    by (auto simp: ecef_nan_def)
  have d: "slant_numpy (axes ell) p = NaN" if "p \<in> set elems" for p
  proof -
    from that obtain i where i: "i < length elems" and p: "p = elems ! i"
      by (auto simp: in_set_conv_nth)
    obtain uvw xyz where e: "elems ! i = (uvw, xyz)"
      by (cases "elems ! i") auto
    from los_inputs_elem [OF inputs i]
    have "ray K deg (elem lat0 i, elem lon0 i, NaN, elem az i, elem tilt i) = Inr (uvw, xyz)"
      by (simp add: e)
    from nan_altitude_position [OF alt this] show ?thesis
      by (auto simp: p e slant_numpy_NaN_position)
  qed
  let ?ds = "map (slant_numpy (axes ell)) elems"
  have ds: "?ds = map (\<lambda>p. NaN) elems"
    using d by simp
  have "surface_point K deg q = Inr (NaN, NaN, h)" if "q \<in> set (zip elems ?ds)" for q
  proof -
    obtain p r where q: "q = (p, r)"
      by (cases q) auto
    with that have "r \<in> set (map (\<lambda>p. NaN) elems)"
      unfolding ds by (auto dest: set_zip_rightD)
    then have "r = NaN"
      by auto
    then show ?thesis
      using geo by (cases p) (simp add: q surface_point_NaN)
  qed
  then have "each (surface_point K deg) (zip elems ?ds)
      = Inr (map (\<lambda>q. (NaN, NaN, h)) (zip elems ?ds))"
    by (rule each_pointwise)
  then have fin: "los_finish K deg (axes ell) elems
      = Inr (squeeze (map (\<lambda>p. NaN) elems), squeeze (map (\<lambda>p. NaN) elems),
             squeeze (map (\<lambda>p. NaN) elems))"
    by (simp add: los_finish_def Let_def ds comp_def map_replicate_const)
  have "lookAtSpheroid K ell deg lat0 lon0 (Sc NaN) az tilt
      = Inr (squeeze (map (\<lambda>p. NaN) elems), squeeze (map (\<lambda>p. NaN) elems),
             squeeze (map (\<lambda>p. NaN) elems))"
    using inputs fin by (simp add: lookAtSpheroid_Inr_iff)
  then show ?thesis
    by (simp add: elem_squeeze)
qed

lemma nan_altitude_math:
  assumes sight: "ray K deg (lat0, lon0, NaN, az, tilt) = Inr (uvw, xyz)"
    and magnitude: "los_magnitude (axes ell) uvw \<noteq> Fin 0"
    and alt: "altitude_nan K deg"
    and nan: "ecef_nan K deg"
  shows "lookAtSpheroid_math K ell deg lat0 lon0 NaN az tilt = Inr (NaN, NaN, NaN)"
proof -
  from nan obtain h where geo: "ecef2geodetic K NaN NaN NaN deg = Inr (NaN, NaN, h)"
    by (auto simp: ecef_nan_def)
  from nan_altitude_position [OF alt sight] obtain x y z where
    xyz: "xyz = (x, y, z)" and "x = NaN \<or> y = NaN \<or> z = NaN"
    by blast
  then have "slant_math (axes ell) (uvw, xyz) = Inr NaN"
    using magnitude by (simp add: slant_math_NaN_position)
  then show ?thesis
    using sight geo by (simp add: lookAtSpheroid_math_def surface_point_NaN del: ray.simps)
qed

text \<open>
  Claim C9. For a scalar altitude that is NaN the comparison of the guard is false, so
  the error of line 67 is not raised; the computation proceeds and the NaN propagates:
  the three outputs are NaN (every element of them, with arrays).

  The statement assumes of the collaborators that \<^verbatim>\<open>geodetic2ecef\<close> returns a NaN
  coordinate for a NaN altitude and that \<^verbatim>\<open>ecef2geodetic\<close> returns NaN angles for the NaN
  point. After the fallback to \<^verbatim>\<open>math\<close> the quotient of line 109 is Python's, so the
  divisor must not be zero (over exact reals it is not, for positive semi-axes and a
  nonzero direction: lemma \<open>magnitude_positive_exact\<close>).
\<close>

theorem nan_altitude_gives_sentinel:
  "altitude_negative (Sc NaN) = Inr False \<and>
   (los_inputs K deg lat0 lon0 (Sc NaN) az tilt = Inr elems \<and>
    altitude_nan K deg \<and> ecef_nan K deg \<longrightarrow>
      (\<exists>lat lon d. lookAtSpheroid K ell deg lat0 lon0 (Sc NaN) az tilt = Inr (lat, lon, d) \<and>
         (\<forall>i<length elems. elem lat i = NaN \<and> elem lon i = NaN \<and> elem d i = NaN))) \<and>
   (ray K deg (lat0', lon0', NaN, az', tilt') = Inr (uvw, xyz) \<and>
    los_magnitude (axes ell) uvw \<noteq> Fin 0 \<and>
    altitude_nan K deg \<and> ecef_nan K deg \<longrightarrow>
      lookAtSpheroid_math K ell deg lat0' lon0' NaN az' tilt' = Inr (NaN, NaN, NaN))"
  using nan_altitude_numpy nan_altitude_math by simp

theorem nan_altitude_gives_sentinel_witness:
  "lookAtSpheroid axis_collab None True (Sc (Fin 0)) (Sc (Fin 0)) (Sc NaN) (Sc (Fin 0))
     (Sc (Fin 0)) = Inr (Sc NaN, Sc NaN, Sc NaN) \<and>
   lookAtSpheroid_math axis_collab None True (Fin 0) (Fin 0) NaN (Fin 0) (Fin 0)
     = Inr (NaN, NaN, NaN)"
proof -
  let ?elems = "[((Fin (- 1), Fin 0, Fin 0), (NaN, Fin 0, Fin 0))]"
  note inst = nan_altitude_gives_sentinel [where K = axis_collab and deg = True
      and ell = None and ?lat0.0 = "Sc (Fin 0)" and ?lon0.0 = "Sc (Fin 0)"
      and az = "Sc (Fin 0)" and tilt = "Sc (Fin 0)" and elems = ?elems
      and lat0' = "Fin 0" and lon0' = "Fin 0" and az' = "Fin 0" and tilt' = "Fin 0"
      and uvw = "(Fin (- 1), Fin 0, Fin 0)" and xyz = "(NaN, Fin 0, Fin 0)"]
  have "\<exists>lat lon d.
      lookAtSpheroid axis_collab None True (Sc (Fin 0)) (Sc (Fin 0)) (Sc NaN) (Sc (Fin 0))
        (Sc (Fin 0)) = Inr (lat, lon, d) \<and>
      (\<forall>i<length ?elems. elem lat i = NaN \<and> elem lon i = NaN \<and> elem d i = NaN)"
    by (rule inst [THEN conjunct2, THEN conjunct1, THEN mp]) (simp add: nan_sights)
  then obtain lat lon d where
    call: "lookAtSpheroid axis_collab None True (Sc (Fin 0)) (Sc (Fin 0)) (Sc NaN)
        (Sc (Fin 0)) (Sc (Fin 0)) = Inr (lat, lon, d)"
    and nans: "elem lat 0 = NaN" "elem lon 0 = NaN" "elem d 0 = NaN"
    by auto
  from call have "\<exists>x y z. lat = Sc x \<and> lon = Sc y \<and> d = Sc z"
    by (auto simp: lookAtSpheroid_Inr_iff nan_sights los_finish_def Let_def bindE_Inr_iff)
  with nans have "lat = Sc NaN" "lon = Sc NaN" "d = Sc NaN"
    by auto
  moreover have "lookAtSpheroid_math axis_collab None True (Fin 0) (Fin 0) NaN (Fin 0) (Fin 0)
      = Inr (NaN, NaN, NaN)"
    by (rule inst [THEN conjunct2, THEN conjunct2, THEN mp])
      (simp add: nan_sight del: ray.simps)
  ultimately show ?thesis
    using call by simp
qed

subsection \<open>The sign of the slant range\<close>

text \<open>With numpy the second masked assignment (line 111) leaves no negative slant
  range, whatever the inputs are.\<close>

lemma slant_range_not_negative_numpy:
  assumes "lookAtSpheroid K ell deg lat0 lon0 h0 az tilt = Inr (lat, lon, d)"
    and "los_inputs K deg lat0 lon0 h0 az tilt = Inr elems" and "i < length elems"
  shows "\<not> elem d i < Fin 0"
proof -
  from assms(1,2) have "los_finish K deg (axes ell) elems = Inr (lat, lon, d)"
    by (simp add: lookAtSpheroid_Inr_iff)
  from los_finish_elem(1) [OF this assms(3)] show ?thesis
    by (simp add: slant_numpy_not_negative)
qed

text \<open>
  Claim C2. The slant range returned is NaN or a non-negative real; in particular, when
  \<open>radical \<ge> 0\<close> and the near root \<open>(value - a b c sqrt(radical)) / magnitude\<close> is
  negative, the sentinel is returned, never a negative number.

  The function does that with numpy (the lemma above, and \<open>zenith_numpy\<close> for the call
  below), and the comment of line 107 says so. After the fallback to \<^verbatim>\<open>math\<close> it does
  not: \<open>d\<close> is a float, the masked assignment of line 110 raises TypeError, the handler
  of line 117 passes, and the negative quotient is returned. The call is the one of an
  observer 600 km above the equator who looks straight up: the near root is the
  intersection behind the observer, at \<open>-(2 a + h0)\<close>.
\<close>

theorem zenith_math_negative_range:
  "lookAtSpheroid_math axis_collab None True (Fin 0) (Fin 0) (Fin 600000) (Fin 0) (Fin 180)
     = Inr (Fin 0, Fin 180, Fin (- 13356274))"
  by (simp add: lookAtSpheroid_math_def elevation_def axis_slant_math del: slant_math.simps)

subsection \<open>The root selected\<close>

lemma near_root_numpy:
  assumes "lookAtSpheroid K ell deg lat0 lon0 h0 az tilt = Inr (lat, lon, d)"
    and "los_inputs K deg lat0 lon0 h0 az tilt = Inr elems"
    and "i < length elems" and "elem d i \<noteq> NaN"
  shows "elem d i = near_root (axes ell) (elems ! i)"
proof -
  from assms(1,2) have "los_finish K deg (axes ell) elems = Inr (lat, lon, d)"
    by (simp add: lookAtSpheroid_Inr_iff)
  from los_finish_elem(1) [OF this assms(3)]
  have d: "elem d i = slant_numpy (axes ell) (elems ! i)" .
  with assms(4) have "slant_numpy (axes ell) (elems ! i) \<noteq> NaN"
    by simp
  from slant_numpy_near_root [OF this] d show ?thesis
    by simp
qed

lemma near_root_math:
  assumes "lookAtSpheroid_math K ell deg lat0 lon0 h0 az tilt = Inr (lat, lon, d)"
    and "d \<noteq> NaN"
  shows "\<exists>p. ray K deg (lat0, lon0, h0, az, tilt) = Inr p \<and> d = near_root (axes ell) p"
proof -
  from assms(1) obtain p where p: "ray K deg (lat0, lon0, h0, az, tilt) = Inr p"
    and d: "slant_math (axes ell) p = Inr d"
    by (auto simp: lookAtSpheroid_math_def bindE_Inr_iff split: if_splits simp del: ray.simps)
  from slant_math_near_root [OF d assms(2)] p show ?thesis
    by blast
qed

lemma near_root_le_far_root:
  assumes "semimajor_axis (ellipsoid_used ell) = Fin a" and "0 < a"
    and "semiminor_axis (ellipsoid_used ell) = Fin c" and "0 < c"
    and "(u, v, w) \<noteq> (0, 0, 0)"
    and "los_radical (axes ell) (Fin u, Fin v, Fin w) (Fin x, Fin y, Fin z) = Fin r"
    and "0 \<le> r"
  shows "near_root (axes ell) ((Fin u, Fin v, Fin w), (Fin x, Fin y, Fin z))
           \<le> far_root (axes ell) ((Fin u, Fin v, Fin w), (Fin x, Fin y, Fin z))"
    and "0 < r \<Longrightarrow> near_root (axes ell) ((Fin u, Fin v, Fin w), (Fin x, Fin y, Fin z))
           < far_root (axes ell) ((Fin u, Fin v, Fin w), (Fin x, Fin y, Fin z))"
proof -
  let ?M = "a\<^sup>2 * a\<^sup>2 * w\<^sup>2 + a\<^sup>2 * c\<^sup>2 * v\<^sup>2 + a\<^sup>2 * c\<^sup>2 * u\<^sup>2"
  have abc: "axes ell = (Fin a, Fin a, Fin c)"
    using assms(1,3) by (simp add: axes_used)
  obtain V where V: "los_value (axes ell) (Fin u, Fin v, Fin w) (Fin x, Fin y, Fin z) = Fin V"
    unfolding abc using value_Fin by blast
  have M: "los_magnitude (axes ell) (Fin u, Fin v, Fin w) = Fin ?M"
    unfolding abc by (rule magnitude_Fin)
  have pos: "0 < ?M"
    using assms(2,2,4,5) by (rule magnitude_pos)
  then have nz: "?M \<noteq> 0"
    by simp
  note roots = roots_Fin [OF V assms(6) M abc assms(7) nz]
  have k: "0 \<le> a * a * c * sqrt r"
    using assms(2,4,7) by simp
  have "(V - a * a * c * sqrt r) / ?M \<le> (V + a * a * c * sqrt r) / ?M"
    using k pos by (intro divide_right_mono) simp_all
  then show "near_root (axes ell) ((Fin u, Fin v, Fin w), (Fin x, Fin y, Fin z))
           \<le> far_root (axes ell) ((Fin u, Fin v, Fin w), (Fin x, Fin y, Fin z))"
    by (simp add: roots del: near_root.simps far_root.simps)
  assume "0 < r"
  then have "0 < a * a * c * sqrt r"
    using assms(2,4) by simp
  then have "(V - a * a * c * sqrt r) / ?M < (V + a * a * c * sqrt r) / ?M"
    using pos by (intro divide_strict_right_mono) simp_all
  then show "near_root (axes ell) ((Fin u, Fin v, Fin w), (Fin x, Fin y, Fin z))
           < far_root (axes ell) ((Fin u, Fin v, Fin w), (Fin x, Fin y, Fin z))"
    by (simp add: roots del: near_root.simps far_root.simps)
qed

text \<open>
  Claim C3. Whenever a real intersection exists and the slant range returned is not the
  sentinel, it is the smaller of the two roots of the quadratic,
  \<open>(value - a b c sqrt(radical)) / magnitude\<close>, which is less than or equal to the other
  root \<open>(value + a b c sqrt(radical)) / magnitude\<close>; the far root is not returned.

  First and second conjunct: the value returned, with numpy (element \<open>i\<close>) and after
  the fallback. Third conjunct: the order of the two roots, for finite inputs, positive
  semi-axes, a nonzero direction and \<open>radical \<ge> 0\<close>; the roots differ when
  \<open>radical > 0\<close>.
\<close>

theorem near_root_returned:
  "(lookAtSpheroid K ell deg lat0 lon0 h0 az tilt = Inr (lat, lon, d) \<and>
    los_inputs K deg lat0 lon0 h0 az tilt = Inr elems \<and> i < length elems \<and>
    elem d i \<noteq> NaN \<longrightarrow>
      elem d i = near_root (axes ell) (elems ! i)) \<and>
   (lookAtSpheroid_math K ell deg lat0' lon0' h0' az' tilt' = Inr (lat', lon', d') \<and>
    d' \<noteq> NaN \<longrightarrow>
      (\<exists>p. ray K deg (lat0', lon0', h0', az', tilt') = Inr p \<and>
           d' = near_root (axes ell) p)) \<and>
   (semimajor_axis (ellipsoid_used ell) = Fin a \<and> 0 < a \<and>
    semiminor_axis (ellipsoid_used ell) = Fin c \<and> 0 < c \<and>
    (u, v, w) \<noteq> (0, 0, 0) \<and>
    los_radical (axes ell) (Fin u, Fin v, Fin w) (Fin x, Fin y, Fin z) = Fin r \<and> 0 \<le> r \<longrightarrow>
      near_root (axes ell) ((Fin u, Fin v, Fin w), (Fin x, Fin y, Fin z))
        \<le> far_root (axes ell) ((Fin u, Fin v, Fin w), (Fin x, Fin y, Fin z)) \<and>
      (0 < r \<longrightarrow>
         near_root (axes ell) ((Fin u, Fin v, Fin w), (Fin x, Fin y, Fin z))
           < far_root (axes ell) ((Fin u, Fin v, Fin w), (Fin x, Fin y, Fin z))))"
proof (intro conjI impI; (elim conjE)?)
  assume "lookAtSpheroid K ell deg lat0 lon0 h0 az tilt = Inr (lat, lon, d)"
    and "los_inputs K deg lat0 lon0 h0 az tilt = Inr elems"
    and "i < length elems" and "elem d i \<noteq> NaN"
  then show "elem d i = near_root (axes ell) (elems ! i)"
    by (rule near_root_numpy)
next
  assume "lookAtSpheroid_math K ell deg lat0' lon0' h0' az' tilt' = Inr (lat', lon', d')"
    and "d' \<noteq> NaN"
  then show "\<exists>p. ray K deg (lat0', lon0', h0', az', tilt') = Inr p \<and>
      d' = near_root (axes ell) p"
    by (rule near_root_math)
next
  assume "semimajor_axis (ellipsoid_used ell) = Fin a" and "0 < a"
    and "semiminor_axis (ellipsoid_used ell) = Fin c" and "0 < c"
    and "(u, v, w) \<noteq> (0, 0, 0)"
    and "los_radical (axes ell) (Fin u, Fin v, Fin w) (Fin x, Fin y, Fin z) = Fin r"
    and "0 \<le> r"
  then show "near_root (axes ell) ((Fin u, Fin v, Fin w), (Fin x, Fin y, Fin z))
      \<le> far_root (axes ell) ((Fin u, Fin v, Fin w), (Fin x, Fin y, Fin z))"
    by (rule near_root_le_far_root(1))
next
  assume "semimajor_axis (ellipsoid_used ell) = Fin a" and "0 < a"
    and "semiminor_axis (ellipsoid_used ell) = Fin c" and "0 < c"
    and "(u, v, w) \<noteq> (0, 0, 0)"
    and "los_radical (axes ell) (Fin u, Fin v, Fin w) (Fin x, Fin y, Fin z) = Fin r"
    and "0 \<le> r" and "0 < r"
  then show "near_root (axes ell) ((Fin u, Fin v, Fin w), (Fin x, Fin y, Fin z))
      < far_root (axes ell) ((Fin u, Fin v, Fin w), (Fin x, Fin y, Fin z))"
    by (rule near_root_le_far_root(2))
qed

theorem near_root_returned_witness:
  "Fin 600000 = near_root (axes None) ((Fin (- 1), Fin 0, Fin 0), (Fin 6978137, Fin 0, Fin 0)) \<and>
   (\<exists>p. ray axis_collab True (Fin 0, Fin 0, Fin 600000, Fin 0, Fin 0) = Inr p \<and>
        Fin 600000 = near_root (axes None) p) \<and>
   near_root (axes None) ((Fin (- 1), Fin 0, Fin 0), (Fin 6978137, Fin 0, Fin 0))
     < far_root (axes None) ((Fin (- 1), Fin 0, Fin 0), (Fin 6978137, Fin 0, Fin 0))"
proof -
  let ?p = "((Fin (- 1), Fin 0, Fin 0), (Fin 6978137, Fin 0, Fin 0))"
  note inst = near_root_returned [where K = axis_collab and deg = True and ell = None
      and ?lat0.0 = "Sc (Fin 0)" and ?lon0.0 = "Sc (Fin 0)" and ?h0.0 = "Sc (Fin 600000)"
      and az = "Sc (Fin 0)" and tilt = "Sc (Fin 0)"
      and lat = "Sc (Fin 0)" and lon = "Sc (Fin 0)" and d = "Sc (Fin 600000)"
      and elems = "[?p]" and i = 0
      and lat0' = "Fin 0" and lon0' = "Fin 0" and h0' = "Fin 600000" and az' = "Fin 0"
      and tilt' = "Fin 0" and lat' = "Fin 0" and lon' = "Fin 0" and d' = "Fin 600000"
      and a = 6378137 and c = "6356752.314245" and u = "- 1" and v = 0 and w = 0
      and x = 6978137 and y = 0 and z = 0 and r = "(6378137 * 6356752.314245)\<^sup>2"]
  have 1: "elem (Sc (Fin 600000)) 0 = near_root (axes None) ([?p] ! 0)"
    by (rule inst [THEN conjunct1, THEN mp]) (simp add: nadir_numpy nadir_sights)
  have 2: "\<exists>p. ray axis_collab True (Fin 0, Fin 0, Fin 600000, Fin 0, Fin 0) = Inr p \<and>
      Fin 600000 = near_root (axes None) p"
    by (rule inst [THEN conjunct2, THEN conjunct1, THEN mp]) (simp add: nadir_math)
  have 3: "near_root (axes None) ?p \<le> far_root (axes None) ?p \<and>
     (0 < (6378137 * 6356752.314245 :: real)\<^sup>2 \<longrightarrow> near_root (axes None) ?p < far_root (axes None) ?p)"
    by (rule inst [THEN conjunct2, THEN conjunct2, THEN mp])
      (simp add: nadir_radical default_ellipsoid_def del: los_radical.simps axes_None)
  from 1 2 3 show ?thesis
    by (simp del: near_root.simps far_root.simps axes_None ray.simps)
qed

subsection \<open>The axes of the quadratic\<close>

lemma sqrt_400: "sqrt 400 = 20"
  by (rule real_sqrt_unique) simp_all

lemma skew_slant_numpy:
  "slant_numpy (axes (Some \<lparr>semimajor_axis = Fin 6, semiminor_axis = Fin 3\<rparr>))
     ((Fin (- 1 / 3), Fin (- 2 / 3), Fin (- 2 / 3)), (Fin 5, Fin 6, Fin 3)) = Fin 3"
  by (simp add: Let_def power2_eq_square sqrt_400)

lemma supplied_nadir_numpy:
  "lookAtSpheroid axis_collab (Some \<lparr>semimajor_axis = Fin 6000000, semiminor_axis = Fin 5000000\<rparr>)
     True (Sc (Fin 0)) (Sc (Fin 0)) (Sc (Fin 600000)) (Sc (Fin 0)) (Sc (Fin 0))
   = Inr (Sc (Fin 0), Sc (Fin 0), Sc (Fin 978137))"
  by (simp add: lookAtSpheroid_def los_inputs_def broadcast_rows_def common_len_def
      los_geometry_def elevation_def los_finish_def axis_slant_numpy
      del: slant_numpy.simps)

lemma supplied_nadir_math:
  "lookAtSpheroid_math axis_collab
     (Some \<lparr>semimajor_axis = Fin 6000000, semiminor_axis = Fin 5000000\<rparr>)
     True (Fin 0) (Fin 0) (Fin 600000) (Fin 0) (Fin 0)
   = Inr (Fin 0, Fin 0, Fin 978137)"
  by (simp add: lookAtSpheroid_math_def elevation_def axis_slant_math del: slant_math.simps)

lemma solver_on_spheroid:
  assumes tq: "triaxial_quadratic (s, s, t) (u, v, w) (x, y, z) = (A, B, C)"
    and nz: "s \<noteq> 0" "t \<noteq> 0"
    and d: "slant_numpy (Fin s, Fin s, Fin t) ((Fin u, Fin v, Fin w), (Fin x, Fin y, Fin z)) = Fin d \<or>
      slant_math (Fin s, Fin s, Fin t) ((Fin u, Fin v, Fin w), (Fin x, Fin y, Fin z)) = Inr (Fin d)"
  shows "on_ellipsoid (s, s, t) (x + d * u, y + d * v, z + d * w)"
proof -
  from d have "near_root (Fin s, Fin s, Fin t) ((Fin u, Fin v, Fin w), (Fin x, Fin y, Fin z)) = Fin d"
  proof
    assume n: "slant_numpy (Fin s, Fin s, Fin t) ((Fin u, Fin v, Fin w), (Fin x, Fin y, Fin z)) = Fin d"
    then have "slant_numpy (Fin s, Fin s, Fin t) ((Fin u, Fin v, Fin w), (Fin x, Fin y, Fin z)) \<noteq> NaN"
      by simp
    from slant_numpy_near_root [OF this] n show ?thesis
      by simp
  next
    assume "slant_math (Fin s, Fin s, Fin t) ((Fin u, Fin v, Fin w), (Fin x, Fin y, Fin z)) = Inr (Fin d)"
    from slant_math_near_root [OF this] show ?thesis
      by simp
  qed
  then have "A * d\<^sup>2 + B * d + C = 0"
    by (rule near_root_solves [OF tq])
  then show ?thesis
    using triaxial_quadratic_meaning [OF nz(1) nz(1) nz(2) tq] by simp
qed

lemma call_on_spheroid_numpy:
  assumes E: "semimajor_axis E = Fin s" "semiminor_axis E = Fin t" and nz: "s \<noteq> 0" "t \<noteq> 0"
    and call: "lookAtSpheroid K (Some E) deg lat0 lon0 h0 az tilt = Inr (lat, lon, ds)"
    and inputs: "los_inputs K deg lat0 lon0 h0 az tilt = Inr elems"
    and i: "i < length elems"
    and p: "elems ! i = ((Fin u, Fin v, Fin w), (Fin x, Fin y, Fin z))"
    and d: "elem ds i = Fin d"
  shows "on_ellipsoid (s, s, t) (x + d * u, y + d * v, z + d * w)"
proof -
  obtain A B C where tq: "triaxial_quadratic (s, s, t) (u, v, w) (x, y, z) = (A, B, C)"
    by (metis prod_cases3)
  from call inputs have "los_finish K deg (axes (Some E)) elems = Inr (lat, lon, ds)"
    by (simp add: lookAtSpheroid_Inr_iff)
  from los_finish_elem(1) [OF this i] d p E
  have "slant_numpy (Fin s, Fin s, Fin t) ((Fin u, Fin v, Fin w), (Fin x, Fin y, Fin z)) = Fin d"
    by (simp del: slant_numpy.simps)
  then show ?thesis
    using solver_on_spheroid [OF tq nz] by blast
qed

lemma call_on_spheroid_math:
  assumes E: "semimajor_axis E = Fin s" "semiminor_axis E = Fin t" and nz: "s \<noteq> 0" "t \<noteq> 0"
    and call: "lookAtSpheroid_math K (Some E) deg lat0 lon0 h0 az tilt = Inr (lat, lon, Fin d)"
    and sight: "ray K deg (lat0, lon0, h0, az, tilt)
      = Inr ((Fin u, Fin v, Fin w), (Fin x, Fin y, Fin z))"
  shows "on_ellipsoid (s, s, t) (x + d * u, y + d * v, z + d * w)"
proof -
  obtain A B C where tq: "triaxial_quadratic (s, s, t) (u, v, w) (x, y, z) = (A, B, C)"
    by (metis prod_cases3)
  from call sight E
  have "slant_math (Fin s, Fin s, Fin t) ((Fin u, Fin v, Fin w), (Fin x, Fin y, Fin z))
      = Inr (Fin d)"
    by (auto simp: lookAtSpheroid_math_def bindE_Inr_iff split: if_splits
        simp del: ray.simps slant_math.simps)
  then show ?thesis
    using solver_on_spheroid [OF tq nz] by blast
qed

text \<open>
  Claim C6. The solver instantiates the general triaxial ray and ellipsoid quadratic
  with both equatorial semi-axes equal to the semi-major axis of the ellipsoid and the
  polar semi-axis equal to its semi-minor axis: the axis triple in \<open>value\<close>, \<open>radical\<close>
  and \<open>magnitude\<close> is \<open>(a, a, b)\<close>, for every supplied ellipsoid.

  First conjunct: for a supplied ellipsoid \<open>E\<close> the triple of lines 79 to 81 is made of
  the axes of \<open>E\<close> itself. Second conjunct: without one it is made of the axes of the
  default ellipsoid. Third conjunct, for a supplied ellipsoid with finite axes \<open>s\<close>
  and \<open>t\<close> and finite inputs, with \<open>(A, B, C)\<close> the coefficients of the triaxial
  quadratic at the axes \<open>(s, s, t)\<close>: \<open>magnitude\<close> is \<open>A\<close>, \<open>value\<close> is \<open>- B / 2\<close>,
  \<open>radical\<close> is the reduced discriminant \<open>(B / 2)\<^sup>2 - A C\<close> divided by \<open>(s s t)\<^sup>2\<close>, and
  every finite slant range the solver produces, in either environment, is the parameter
  of a point of the ray on the ellipsoid with semi-axes \<open>(s, s, t)\<close>. Fourth and fifth
  conjunct: the same of the function called with the ellipsoid \<open>E\<close>, with numpy (element
  \<open>i\<close>) and after the fallback: every finite slant range returned leads to a point of
  the spheroid of \<open>E\<close>.
\<close>

theorem spheroid_axes_used:
  "axes (Some E) = (semimajor_axis E, semimajor_axis E, semiminor_axis E) \<and>
   axes None = (semimajor_axis default_ellipsoid, semimajor_axis default_ellipsoid,
     semiminor_axis default_ellipsoid) \<and>
   (semimajor_axis E = Fin s \<and> semiminor_axis E = Fin t \<and>
    triaxial_quadratic (s, s, t) (u, v, w) (x, y, z) = (A, B, C) \<longrightarrow>
      los_magnitude (axes (Some E)) (Fin u, Fin v, Fin w) = Fin A \<and>
      los_value (axes (Some E)) (Fin u, Fin v, Fin w) (Fin x, Fin y, Fin z) = Fin (- B / 2) \<and>
      (\<exists>r. los_radical (axes (Some E)) (Fin u, Fin v, Fin w) (Fin x, Fin y, Fin z) = Fin r \<and>
           (s * s * t)\<^sup>2 * r = (B / 2)\<^sup>2 - A * C) \<and>
      (\<forall>d. s \<noteq> 0 \<and> t \<noteq> 0 \<and>
           (slant_numpy (axes (Some E)) ((Fin u, Fin v, Fin w), (Fin x, Fin y, Fin z)) = Fin d \<or>
            slant_math (axes (Some E)) ((Fin u, Fin v, Fin w), (Fin x, Fin y, Fin z))
              = Inr (Fin d))
           \<longrightarrow> on_ellipsoid (s, s, t) (x + d * u, y + d * v, z + d * w))) \<and>
   (semimajor_axis E = Fin s \<and> semiminor_axis E = Fin t \<and> s \<noteq> 0 \<and> t \<noteq> 0 \<and>
    lookAtSpheroid K (Some E) deg lat0 lon0 h0 az tilt = Inr (lat, lon, ds) \<and>
    los_inputs K deg lat0 lon0 h0 az tilt = Inr elems \<and> i < length elems \<and>
    elems ! i = ((Fin u, Fin v, Fin w), (Fin x, Fin y, Fin z)) \<and> elem ds i = Fin d \<longrightarrow>
      on_ellipsoid (s, s, t) (x + d * u, y + d * v, z + d * w)) \<and>
   (semimajor_axis E = Fin s \<and> semiminor_axis E = Fin t \<and> s \<noteq> 0 \<and> t \<noteq> 0 \<and>
    lookAtSpheroid_math K (Some E) deg lat0' lon0' h0' az' tilt' = Inr (lat', lon', Fin d) \<and>
    ray K deg (lat0', lon0', h0', az', tilt')
      = Inr ((Fin u, Fin v, Fin w), (Fin x, Fin y, Fin z)) \<longrightarrow>
      on_ellipsoid (s, s, t) (x + d * u, y + d * v, z + d * w))"
proof (intro conjI impI allI; (elim conjE)?)
  show "axes (Some E) = (semimajor_axis E, semimajor_axis E, semiminor_axis E)"
    by (simp add: axes_def ellipsoid_used_def)
next
  show "axes None = (semimajor_axis default_ellipsoid, semimajor_axis default_ellipsoid,
     semiminor_axis default_ellipsoid)"
    by (simp add: axes_def ellipsoid_used_def)
next
  assume "semimajor_axis E = Fin s" and "semiminor_axis E = Fin t"
    and "triaxial_quadratic (s, s, t) (u, v, w) (x, y, z) = (A, B, C)"
  then show "los_magnitude (axes (Some E)) (Fin u, Fin v, Fin w) = Fin A"
    by (simp add: solver_quantities(1) del: los_magnitude.simps triaxial_quadratic.simps)
next
  assume "semimajor_axis E = Fin s" and "semiminor_axis E = Fin t"
    and "triaxial_quadratic (s, s, t) (u, v, w) (x, y, z) = (A, B, C)"
  then show "los_value (axes (Some E)) (Fin u, Fin v, Fin w) (Fin x, Fin y, Fin z)
      = Fin (- B / 2)"
    by (simp add: solver_quantities(2) del: los_value.simps triaxial_quadratic.simps)
next
  assume "semimajor_axis E = Fin s" and "semiminor_axis E = Fin t"
    and "triaxial_quadratic (s, s, t) (u, v, w) (x, y, z) = (A, B, C)"
  then show "\<exists>r. los_radical (axes (Some E)) (Fin u, Fin v, Fin w) (Fin x, Fin y, Fin z) = Fin r \<and>
      (s * s * t)\<^sup>2 * r = (B / 2)\<^sup>2 - A * C"
    using solver_quantities(3) [of s s t u v w x y z A B C]
    by (simp del: los_radical.simps triaxial_quadratic.simps)
next
  fix e
  assume "semimajor_axis E = Fin s" and "semiminor_axis E = Fin t"
    and "triaxial_quadratic (s, s, t) (u, v, w) (x, y, z) = (A, B, C)"
    and "s \<noteq> 0" and "t \<noteq> 0"
    and "slant_numpy (axes (Some E)) ((Fin u, Fin v, Fin w), (Fin x, Fin y, Fin z)) = Fin e \<or>
      slant_math (axes (Some E)) ((Fin u, Fin v, Fin w), (Fin x, Fin y, Fin z)) = Inr (Fin e)"
  then show "on_ellipsoid (s, s, t) (x + e * u, y + e * v, z + e * w)"
    using solver_on_spheroid [of s t u v w x y z A B C e]
    by (simp del: slant_numpy.simps slant_math.simps triaxial_quadratic.simps on_ellipsoid.simps)
next
  assume "semimajor_axis E = Fin s" and "semiminor_axis E = Fin t" and "s \<noteq> 0" and "t \<noteq> 0"
    and "lookAtSpheroid K (Some E) deg lat0 lon0 h0 az tilt = Inr (lat, lon, ds)"
    and "los_inputs K deg lat0 lon0 h0 az tilt = Inr elems" and "i < length elems"
    and "elems ! i = ((Fin u, Fin v, Fin w), (Fin x, Fin y, Fin z))" and "elem ds i = Fin d"
  then show "on_ellipsoid (s, s, t) (x + d * u, y + d * v, z + d * w)"
    by (rule call_on_spheroid_numpy)
next
  assume "semimajor_axis E = Fin s" and "semiminor_axis E = Fin t" and "s \<noteq> 0" and "t \<noteq> 0"
    and "lookAtSpheroid_math K (Some E) deg lat0' lon0' h0' az' tilt' = Inr (lat', lon', Fin d)"
    and "ray K deg (lat0', lon0', h0', az', tilt')
      = Inr ((Fin u, Fin v, Fin w), (Fin x, Fin y, Fin z))"
  then show "on_ellipsoid (s, s, t) (x + d * u, y + d * v, z + d * w)"
    by (rule call_on_spheroid_math)
qed


theorem spheroid_axes_used_witness:
  "axes (Some \<lparr>semimajor_axis = Fin 6, semiminor_axis = Fin 3\<rparr>) = (Fin 6, Fin 6, Fin 3) \<and>
   los_magnitude (axes (Some \<lparr>semimajor_axis = Fin 6, semiminor_axis = Fin 3\<rparr>))
     (Fin (- 1 / 3), Fin (- 2 / 3), Fin (- 2 / 3)) = Fin 756 \<and>
   los_value (axes (Some \<lparr>semimajor_axis = Fin 6, semiminor_axis = Fin 3\<rparr>))
     (Fin (- 1 / 3), Fin (- 2 / 3), Fin (- 2 / 3)) (Fin 5, Fin 6, Fin 3) = Fin (- (- 8856) / 2) \<and>
   on_ellipsoid (6, 6, 3) (5 + 3 * (- 1 / 3), 6 + 3 * (- 2 / 3), 3 + 3 * (- 2 / 3)) \<and>
   on_ellipsoid (6000000, 6000000, 5000000)
     (6978137 + 978137 * (- 1), 0 + 978137 * 0, 0 + 978137 * 0)"
proof -
  let ?E = "\<lparr>semimajor_axis = Fin 6, semiminor_axis = Fin 3\<rparr>"
  let ?F = "\<lparr>semimajor_axis = Fin 6000000, semiminor_axis = Fin 5000000\<rparr>"
  let ?p = "((Fin (- 1), Fin 0, Fin 0), (Fin 6978137, Fin 0, Fin 0))"
  note skew = spheroid_axes_used [where E = ?E and s = 6 and t = 3
      and u = "- 1 / 3" and v = "- 2 / 3" and w = "- 2 / 3" and x = 5 and y = 6 and z = 3
      and A = 756 and B = "- 8856" and C = 19764]
  note nadir = spheroid_axes_used [where E = ?F and s = 6000000 and t = 5000000
      and K = axis_collab and deg = True
      and ?lat0.0 = "Sc (Fin 0)" and ?lon0.0 = "Sc (Fin 0)" and ?h0.0 = "Sc (Fin 600000)"
      and az = "Sc (Fin 0)" and tilt = "Sc (Fin 0)"
      and lat = "Sc (Fin 0)" and lon = "Sc (Fin 0)" and ds = "Sc (Fin 978137)"
      and elems = "[?p]" and i = 0
      and lat0' = "Fin 0" and lon0' = "Fin 0" and h0' = "Fin 600000" and az' = "Fin 0"
      and tilt' = "Fin 0" and lat' = "Fin 0" and lon' = "Fin 0"
      and u = "- 1" and v = 0 and w = 0 and x = 6978137 and y = 0 and z = 0 and d = 978137]
  have 1: "axes (Some ?E) = (Fin 6, Fin 6, Fin 3)"
    using skew [THEN conjunct1] by simp
  have hyp: "semimajor_axis ?E = Fin 6 \<and> semiminor_axis ?E = Fin 3 \<and>
      triaxial_quadratic (6, 6, 3) (- 1 / 3, - 2 / 3, - 2 / 3) (5, 6, 3) = (756, - 8856, 19764)"
    by (simp add: power2_eq_square)
  note concl = skew [THEN conjunct2, THEN conjunct2, THEN conjunct1, THEN mp, OF hyp]
  from concl have 2: "los_magnitude (axes (Some ?E)) (Fin (- 1 / 3), Fin (- 2 / 3), Fin (- 2 / 3))
      = Fin 756"
    by (rule conjunct1)
  from concl have 3: "los_value (axes (Some ?E)) (Fin (- 1 / 3), Fin (- 2 / 3), Fin (- 2 / 3))
      (Fin 5, Fin 6, Fin 3) = Fin (- (- 8856) / 2)"
    by (rule conjunct2 [THEN conjunct1])
  from concl have "\<forall>d. (6::real) \<noteq> 0 \<and> (3::real) \<noteq> 0 \<and>
       (slant_numpy (axes (Some ?E))
          ((Fin (- 1 / 3), Fin (- 2 / 3), Fin (- 2 / 3)), (Fin 5, Fin 6, Fin 3)) = Fin d \<or>
        slant_math (axes (Some ?E))
          ((Fin (- 1 / 3), Fin (- 2 / 3), Fin (- 2 / 3)), (Fin 5, Fin 6, Fin 3)) = Inr (Fin d))
       \<longrightarrow> on_ellipsoid (6, 6, 3) (5 + d * (- 1 / 3), 6 + d * (- 2 / 3), 3 + d * (- 2 / 3))"
    by (rule conjunct2 [THEN conjunct2, THEN conjunct2])
  from this [rule_format, of 3] skew_slant_numpy
  have 4: "on_ellipsoid (6, 6, 3) (5 + 3 * (- 1 / 3), 6 + 3 * (- 2 / 3), 3 + 3 * (- 2 / 3))"
    by (simp del: slant_numpy.simps slant_math.simps axes_Some on_ellipsoid.simps)
  have 5: "on_ellipsoid (6000000, 6000000, 5000000)
     (6978137 + 978137 * (- 1), 0 + 978137 * 0, 0 + 978137 * 0)"
    by (rule nadir [THEN conjunct2, THEN conjunct2, THEN conjunct2, THEN conjunct1, THEN mp])
      (simp add: supplied_nadir_numpy nadir_sights)
  have 6: "on_ellipsoid (6000000, 6000000, 5000000)
     (6978137 + 978137 * (- 1), 0 + 978137 * 0, 0 + 978137 * 0)"
    by (rule nadir [THEN conjunct2, THEN conjunct2, THEN conjunct2, THEN conjunct2, THEN mp])
      (simp add: supplied_nadir_math nadir_sight del: ray.simps)
  from 1 2 3 4 5 6 show ?thesis
    by blast
qed

subsection \<open>Broadcasting\<close>

text \<open>Every shape fits the common shape, and the index \<open>source_index\<close> of an element of
  a broadcast array is an index of the array.\<close>

lemma fits_Nil: "fits ms [] \<longleftrightarrow> ms = []"
  by (cases ms) simp_all

lemma fits_refl: "fits ms ms"
  by (induction ms) simp_all

lemma fits_trans: "fits as bs \<Longrightarrow> fits bs cs \<Longrightarrow> fits as cs"
proof (induction as bs arbitrary: cs rule: fits.induct)
  case (3 m ms n ns)
  then show ?case by (cases cs) auto
qed simp_all

lemma broadcast_rev_fits:
  "broadcast_rev ms ns = Inr ks \<Longrightarrow> fits ms ks \<and> fits ns ks"
proof (induction ms ns arbitrary: ks rule: broadcast_rev.induct)
  case (3 m ms n ns)
  from "3.prems" obtain k ks' where k: "broadcast_dim m n = Inr k"
    and ks': "broadcast_rev ms ns = Inr ks'" and ks: "ks = k # ks'"
    by (auto simp: bindE_Inr_iff)
  from "3.IH" ks' have "fits ms ks' \<and> fits ns ks'"
    by blast
  with k show ?case
    by (auto simp: ks broadcast_dim_def split: if_splits)
qed (auto simp: fits_refl)

lemma common_shape_fits:
  "common_shape ss = Inr S \<Longrightarrow> s \<in> set ss \<Longrightarrow> fits (rev s) (rev S)"
proof (induction ss arbitrary: S)
  case (Cons t ss)
  from Cons.prems(1) obtain T where T: "common_shape ss = Inr T"
    and S: "broadcast_shapes t T = Inr S"
    by (auto simp: bindE_Inr_iff)
  from S have f: "fits (rev t) (rev S) \<and> fits (rev T) (rev S)"
    using broadcast_rev_fits [of "rev t" "rev T"]
    by (auto simp: broadcast_shapes_def bindE_Inr_iff)
  show ?case
  proof (cases "s = t")
    case True
    with f show ?thesis by simp
  next
    case False
    with Cons.prems(2) have "s \<in> set ss" by simp
    from Cons.IH [OF T this] f show ?thesis
      by (blast intro: fits_trans)
  qed
qed simp

lemma source_index_bound:
  "fits ms R \<Longrightarrow> i < prod_list R \<Longrightarrow> source_index R ms i < prod_list ms"
proof (induction R ms i rule: source_index.induct)
  case (1 n ns m ms i)
  from "1.prems" have mn: "m = n \<or> m = 1" and f: "fits ms ns" and i: "i < n * prod_list ns"
    by simp_all
  from i have n: "0 < n"
    by (cases n) simp_all
  from i n have "i div n < prod_list ns"
    by (simp add: less_mult_imp_div_less mult.commute)
  with "1.IH" f have q: "source_index ns ms (i div n) < prod_list ms"
    by simp
  have r: "(if m = 1 then 0 else i mod n) < m"
    using mn n by auto
  have "(if m = 1 then 0 else i mod n) + m * source_index ns ms (i div n)
      < m + m * source_index ns ms (i div n)"
    using r by simp
  also have "\<dots> = m * Suc (source_index ns ms (i div n))"
    by simp
  also have "\<dots> \<le> m * prod_list ms"
    using q by (intro mult_le_mono2) simp
  finally show ?case
    by simp
qed (simp_all add: fits_Nil)

lemma nd_elem_in_range:
  assumes "common_shape ss = Inr S" and "sh \<in> set ss" and "length xs = prod_list sh"
    and "i < prod_list S"
  shows "source_index (rev S) (rev sh) i < length xs"
  using source_index_bound [OF common_shape_fits [OF assms(1,2)], of i] assms(3,4)
  by simp

subsection \<open>The two embeddings of the function with numpy\<close>

lemma nd_of_guard: "nd_altitude_negative (nd_of h0) = altitude_negative h0"
  by (cases h0 rule: altitude_negative.cases) simp_all

lemma nd_of_atleast_1d: "nd_atleast_1d (nd_of v) = nd_of (atleast_1d v)"
  by (cases v) simp_all

lemma nd_of_shape: "nd_shape (nd_of v) = dims v"
  by (cases v) simp_all

lemma common_len_error: "common_len ls = Inl e \<Longrightarrow> e = ValueError"
  by (auto simp: common_len_def split: list.splits if_splits)

lemma common_len_Cons:
  "common_len (m # ls) =
     (if m = 1 then common_len ls
      else case common_len ls of
             Inl e \<Rightarrow> Inl ValueError
           | Inr n \<Rightarrow> if n = 1 \<or> n = m then Inr m else Inl ValueError)"
proof (cases "filter (\<lambda>l. l \<noteq> 1) ls")
  case Nil
  then show ?thesis
    by (simp add: common_len_def)
next
  case (Cons k ks)
  then have "k \<in> set (filter (\<lambda>l. l \<noteq> 1) ls)"
    by simp
  then have "k \<noteq> 1"
    by simp
  with Cons show ?thesis
    by (auto simp: common_len_def list_all_iff)
qed

lemma broadcast_shapes_Nil [simp]: "broadcast_shapes [] t = Inr t"
  by (simp add: broadcast_shapes_def)

lemma broadcast_shapes_single:
  "broadcast_shapes [m] [] = Inr [m]"
  "broadcast_shapes [m] [n] = bindE (broadcast_dim m n) (\<lambda>k. Inr [k])"
  by (cases "broadcast_dim m n"; simp add: broadcast_shapes_def)+

lemma common_shape_flat:
  assumes "\<forall>s\<in>set ss. length s \<le> 1"
  shows "common_shape ss =
     (case common_len (concat ss) of
        Inl e \<Rightarrow> Inl ValueError
      | Inr n \<Rightarrow> Inr (if \<forall>s\<in>set ss. s = [] then [] else [n]))"
  using assms
proof (induction ss)
  case Nil
  then show ?case by (simp add: common_len_def)
next
  case (Cons s ss)
  then have IH: "common_shape ss =
     (case common_len (concat ss) of
        Inl e \<Rightarrow> Inl ValueError
      | Inr n \<Rightarrow> Inr (if \<forall>s\<in>set ss. s = [] then [] else [n]))"
    by simp
  from Cons.prems have "s = [] \<or> (\<exists>m. s = [m])"
    by (cases s; cases "tl s") auto
  then show ?case
  proof
    assume "s = []"
    then show ?thesis
      by (simp add: IH split: sum.splits)
  next
    assume "\<exists>m. s = [m]"
    then obtain m where s: "s = [m]" by blast
    show ?thesis
    proof (cases "common_len (concat ss)")
      case (Inl e)
      then show ?thesis
        by (simp add: s IH common_len_Cons)
    next
      case (Inr n)
      show ?thesis
      proof (cases "\<forall>s\<in>set ss. s = []")
        case True
        then have "concat ss = []" by simp
        with Inr have "n = 1" by (simp add: common_len_def)
        with True Inr show ?thesis
          by (simp add: s IH common_len_Cons broadcast_shapes_single)
      next
        case False
        with Inr show ?thesis
          by (auto simp: s IH common_len_Cons broadcast_shapes_single broadcast_dim_def)
      qed
    qed
  qed
qed

lemma nd_of_elem: "i < n \<Longrightarrow> nd_elem [n] (nd_of v) i = elem v i"
proof (cases v)
  case (Arr xs)
  assume "i < n"
  then show ?thesis
    by (cases xs) (auto simp: Arr)
qed simp

lemma nd_of_squeeze: "nd_squeeze [length xs] xs = nd_of (squeeze xs)"
  by (cases xs rule: squeeze.cases) (simp_all add: nd_squeeze_def squeezed_def)

lemma dims_length: "length (dims v) \<le> Suc 0"
  by (cases v) simp_all

lemma nd_of_inputs:
  "nd_inputs K deg (nd_of lat0) (nd_of lon0) (nd_of h0) (nd_of az) (nd_of tilt) =
     bindE (los_inputs K deg lat0 lon0 h0 az tilt) (\<lambda>elems. Inr ([length elems], elems))"
proof -
  let ?ss = "[dims (atleast_1d lat0), dims (atleast_1d lon0), dims h0, dims az,
      dims (atleast_1d tilt)]"
  let ?ls = "dims (atleast_1d lat0) @ dims (atleast_1d lon0) @ dims h0 @ dims az @
      dims (atleast_1d tilt)"
  have ne: "dims (atleast_1d lat0) \<noteq> []"
    by (cases lat0) simp_all
  have "\<forall>s\<in>set ?ss. length s \<le> 1"
    by (simp add: dims_length)
  from common_shape_flat [OF this] ne
  have cs: "common_shape ?ss =
      (case common_len ?ls of Inl e \<Rightarrow> Inl ValueError | Inr n \<Rightarrow> Inr [n])"
    by (simp del: common_shape.simps split: sum.splits)
  show ?thesis
  proof (cases "common_len ?ls")
    case (Inl e)
    with common_len_error [OF Inl] show ?thesis
      unfolding nd_inputs_def los_inputs_def broadcast_rows_def Let_def
      by (simp add: nd_of_atleast_1d nd_of_shape cs del: common_shape.simps)
  next
    case (Inr n)
    let ?rows = "map (\<lambda>i. (elem lat0 i, elem lon0 i, elem h0 i, elem az i, elem tilt i)) [0..<n]"
    have rows: "map (\<lambda>i. (nd_elem [n] (nd_of (atleast_1d lat0)) i,
        nd_elem [n] (nd_of (atleast_1d lon0)) i, nd_elem [n] (nd_of h0) i,
        nd_elem [n] (nd_of az) i, nd_elem [n] (nd_of (atleast_1d tilt)) i)) [0..<n] = ?rows"
      by (rule map_cong) (simp_all add: nd_of_elem)
    have len: "los_geometry K deg ?rows = Inr elems \<Longrightarrow> length elems = n" for elems
      using los_geometry_elem(1) [of K deg ?rows elems] by simp
    show ?thesis
      unfolding nd_inputs_def los_inputs_def broadcast_rows_def Let_def
      by (cases "los_geometry K deg ?rows")
        (simp_all add: nd_of_atleast_1d nd_of_shape cs Inr rows len del: common_shape.simps)
  qed
qed

lemma nd_of_finish:
  "nd_finish K deg abc ([length elems], elems) =
     map_sum id (\<lambda>(lat, lon, d). (nd_of lat, nd_of lon, nd_of d)) (los_finish K deg abc elems)"
proof (cases "each (surface_point K deg) (zip elems (map (slant_numpy abc) elems))")
  case (Inl e)
  then show ?thesis
    by (simp add: nd_finish_def los_finish_def Let_def)
next
  case (Inr geos)
  then have len: "length geos = length elems"
    by (simp add: each_Inr_iff)
  have 1: "nd_squeeze [length elems] (map fst geos) = nd_of (squeeze (map fst geos))"
    using nd_of_squeeze [of "map fst geos"] len by simp
  have 2: "nd_squeeze [length elems] (map (\<lambda>g. fst (snd g)) geos)
      = nd_of (squeeze (map (\<lambda>g. fst (snd g)) geos))"
    using nd_of_squeeze [of "map (\<lambda>g. fst (snd g)) geos"] len by simp
  have 3: "nd_squeeze [length elems] (map (slant_numpy abc) elems)
      = nd_of (squeeze (map (slant_numpy abc) elems))"
    using nd_of_squeeze [of "map (slant_numpy abc) elems"] by simp
  show ?thesis
    by (simp add: nd_finish_def los_finish_def Let_def Inr 1 2 3)
qed

text \<open>On scalars and one-dimensional arrays the function on arrays of any shape is
  \<open>lookAtSpheroid\<close>: the same exceptions, the same results.\<close>

lemma one_dimensional_agreement:
  "lookAtSpheroid_nd K ell deg (nd_of lat0) (nd_of lon0) (nd_of h0) (nd_of az) (nd_of tilt) =
     map_sum id (\<lambda>(lat, lon, d). (nd_of lat, nd_of lon, nd_of d))
       (lookAtSpheroid K ell deg lat0 lon0 h0 az tilt)"
proof (cases "altitude_negative h0")
  case (Inl e)
  then show ?thesis
    by (simp add: lookAtSpheroid_nd_def lookAtSpheroid_def nd_of_guard)
next
  case (Inr negative)
  show ?thesis
  proof (cases "los_inputs K deg lat0 lon0 h0 az tilt")
    case (Inl e)
    then show ?thesis
      by (simp add: lookAtSpheroid_nd_def lookAtSpheroid_def nd_of_guard Inr nd_of_inputs)
  next
    case inputs: (Inr elems)
    show ?thesis
      by (simp add: lookAtSpheroid_nd_def lookAtSpheroid_def nd_of_guard Inr nd_of_inputs
          inputs nd_of_finish)
  qed
qed

subsection \<open>Shapes\<close>

lemma los_geometry_returns:
  assumes "collab_returns K deg"
  shows "\<exists>elems. los_geometry K deg rows = Inr elems"
proof -
  have 1: "\<not> isl ((\<lambda>(lat0, lon0, h0, az, tilt).
      aer2enu K az (elevation deg tilt) (Fin 1) deg) r)" for r
    using assms by (auto simp: collab_returns_def split: prod.splits)
  have 2: "\<not> isl ((\<lambda>((lat0, lon0, h0, az, tilt), (e, n, u)).
      enu2uvw K e n u lat0 lon0 deg) r)" for r
    using assms by (auto simp: collab_returns_def split: prod.splits)
  have 3: "\<not> isl ((\<lambda>(lat0, lon0, h0, az, tilt). geodetic2ecef K lat0 lon0 h0 deg) r)" for r
    using assms by (auto simp: collab_returns_def split: prod.splits)
  show ?thesis
    unfolding los_geometry_def
    by (simp add: each_returns [OF 1] each_returns [OF 2] each_returns [OF 3])
qed

lemma source_index_atleast_1d [simp]: "source_index R [Suc 0] i = 0"
  by (cases R) simp_all

lemma nd_elem_atleast_1d [simp]: "nd_elem S (nd_atleast_1d v) i = nd_elem S v i"
  by (cases v rule: nd_atleast_1d.cases) simp_all

lemma source_index_ones:
  "\<forall>m\<in>set ms. m = 1 \<Longrightarrow> source_index R ms i = 0"
  by (induction R ms i rule: source_index.induct) simp_all

lemma prod_list_one_iff: "prod_list (ms :: nat list) = Suc 0 \<longleftrightarrow> (\<forall>m\<in>set ms. m = Suc 0)"
  by (induction ms) auto

lemma broadcast_dim_zero:
  "broadcast_dim m n = Inr k \<Longrightarrow> m = 0 \<or> n = 0 \<Longrightarrow> k = 0"
  by (auto simp: broadcast_dim_def split: if_splits)

lemma broadcast_rev_zero:
  "broadcast_rev ms ns = Inr ks \<Longrightarrow> 0 \<in> set ms \<or> 0 \<in> set ns \<Longrightarrow> 0 \<in> set ks"
proof (induction ms ns arbitrary: ks rule: broadcast_rev.induct)
  case (3 m ms n ns)
  from "3.prems"(1) obtain k ks' where k: "broadcast_dim m n = Inr k"
    and ks': "broadcast_rev ms ns = Inr ks'" and ks: "ks = k # ks'"
    by (auto simp: bindE_Inr_iff)
  show ?case
  proof (cases "m = 0 \<or> n = 0")
    case True
    with broadcast_dim_zero [OF k] show ?thesis by (simp add: ks)
  next
    case False
    with "3.prems"(2) have "0 \<in> set ms \<or> 0 \<in> set ns" by auto
    with "3.IH" ks' have "0 \<in> set ks'" by blast
    then show ?thesis by (simp add: ks)
  qed
qed auto

lemma broadcast_shapes_zero:
  "broadcast_shapes s t = Inr r \<Longrightarrow> 0 \<in> set s \<or> 0 \<in> set t \<Longrightarrow> 0 \<in> set r"
  using broadcast_rev_zero [of "rev s" "rev t"]
  by (auto simp: broadcast_shapes_def bindE_Inr_iff)

lemma common_shape_zero:
  "common_shape ss = Inr S \<Longrightarrow> s \<in> set ss \<Longrightarrow> 0 \<in> set s \<Longrightarrow> 0 \<in> set S"
proof (induction ss arbitrary: S)
  case (Cons t ss)
  from Cons(2) obtain T where T: "common_shape ss = Inr T" and S: "broadcast_shapes t T = Inr S"
    by (auto simp: bindE_Inr_iff)
  show ?case
  proof (cases "s = t")
    case True
    with S Cons(4) show ?thesis by (auto dest: broadcast_shapes_zero)
  next
    case False
    with Cons(3) have "s \<in> set ss" by simp
    from Cons(1) [OF T this Cons(4)] S show ?thesis by (auto dest: broadcast_shapes_zero)
  qed
qed simp


lemma prod_list_squeezed: "prod_list (squeezed S) = prod_list S"
  by (induction S) (simp_all add: squeezed_def)

lemma squeezed_Nil_iff: "squeezed S = [] \<longleftrightarrow> prod_list S = 1 \<and> (\<forall>n\<in>set S. n = 1)"
  by (auto simp: squeezed_def filter_empty_conv prod_list_one_iff)

lemma nd_squeeze_shape:
  assumes "length xs = prod_list S"
  shows "nd_shape (nd_squeeze S xs) = squeezed S"
    and "nd_wf (nd_squeeze S xs)"
    and "is_scalar (nd_squeeze S xs) \<longleftrightarrow> squeezed S = []"
  using assms prod_list_squeezed [of S]
  by (auto simp: nd_squeeze_def split: list.splits)

lemma nd_flat_squeeze:
  assumes "length xs = prod_list S" and "i < length xs"
  shows "nd_flat (nd_squeeze S xs) i = xs ! i"
proof (cases "squeezed S")
  case Nil
  then have "prod_list S = 1"
    by (simp add: squeezed_Nil_iff)
  with assms have "i = 0" and "xs \<noteq> []"
    by auto
  then show ?thesis
    by (simp add: nd_squeeze_def Nil hd_conv_nth)
next
  case (Cons n ns)
  then show ?thesis
    by (simp add: nd_squeeze_def)
qed

lemma lookAtSpheroid_nd_Inr_iff:
  "lookAtSpheroid_nd K ell deg lat0 lon0 h0 az tilt = Inr out \<longleftrightarrow>
     nd_altitude_negative h0 = Inr False \<and>
     (\<exists>inputs. nd_inputs K deg lat0 lon0 h0 az tilt = Inr inputs \<and>
        nd_finish K deg (axes ell) inputs = Inr out)"
  by (auto simp: lookAtSpheroid_nd_def bindE_Inr_iff)

lemma nd_inputs_elem:
  assumes "nd_inputs K deg lat0 lon0 h0 az tilt = Inr (S, elems)"
  shows "common_shape [nd_shape (nd_atleast_1d lat0), nd_shape (nd_atleast_1d lon0), nd_shape h0,
           nd_shape az, nd_shape (nd_atleast_1d tilt)] = Inr S"
    and "length elems = prod_list S"
    and "i < prod_list S \<Longrightarrow>
      ray K deg (nd_elem S lat0 i, nd_elem S lon0 i, nd_elem S h0 i, nd_elem S az i,
        nd_elem S tilt i) = Inr (elems ! i)"
proof -
  let ?rows = "map (\<lambda>i. (nd_elem S (nd_atleast_1d lat0) i, nd_elem S (nd_atleast_1d lon0) i,
      nd_elem S h0 i, nd_elem S az i, nd_elem S (nd_atleast_1d tilt) i)) [0..<prod_list S]"
  from assms have S: "common_shape [nd_shape (nd_atleast_1d lat0),
      nd_shape (nd_atleast_1d lon0), nd_shape h0, nd_shape az, nd_shape (nd_atleast_1d tilt)]
      = Inr S"
    and geo: "los_geometry K deg ?rows = Inr elems"
    unfolding nd_inputs_def Let_def by (auto simp: bindE_Inr_iff simp del: common_shape.simps)
  show "common_shape [nd_shape (nd_atleast_1d lat0), nd_shape (nd_atleast_1d lon0), nd_shape h0,
           nd_shape az, nd_shape (nd_atleast_1d tilt)] = Inr S"
    by (rule S)
  from los_geometry_elem(1) [OF geo] show len: "length elems = prod_list S"
    by simp
  assume "i < prod_list S"
  with los_geometry_elem(2) [OF geo, of i]
  show "ray K deg (nd_elem S lat0 i, nd_elem S lon0 i, nd_elem S h0 i, nd_elem S az i,
        nd_elem S tilt i) = Inr (elems ! i)"
    by simp
qed

lemma nd_finish_elem:
  assumes "nd_finish K deg abc (S, elems) = Inr (lat, lon, d)" and "length elems = prod_list S"
  shows "nd_shape lat = squeezed S \<and> nd_shape lon = squeezed S \<and> nd_shape d = squeezed S"
    and "nd_wf lat \<and> nd_wf lon \<and> nd_wf d"
    and "(is_scalar lat \<longleftrightarrow> squeezed S = []) \<and> (is_scalar lon \<longleftrightarrow> squeezed S = []) \<and>
         (is_scalar d \<longleftrightarrow> squeezed S = [])"
    and "i < prod_list S \<Longrightarrow> nd_flat d i = slant_numpy abc (elems ! i)"
    and "i < prod_list S \<Longrightarrow>
       \<exists>alt. surface_point K deg (elems ! i, slant_numpy abc (elems ! i))
           = Inr (nd_flat lat i, nd_flat lon i, alt)"
proof -
  let ?ds = "map (slant_numpy abc) elems"
  from assms(1) obtain geos where
    geos: "each (surface_point K deg) (zip elems ?ds) = Inr geos"
    and out: "lat = nd_squeeze S (map fst geos)" "lon = nd_squeeze S (map (\<lambda>g. fst (snd g)) geos)"
      "d = nd_squeeze S ?ds"
    unfolding nd_finish_def by (auto simp: bindE_Inr_iff Let_def)
  have len: "length geos = prod_list S"
    using geos assms(2) by (simp add: each_Inr_iff)
  have l: "length (map fst geos) = prod_list S" "length (map (\<lambda>g. fst (snd g)) geos) = prod_list S"
    "length ?ds = prod_list S"
    using len assms(2) by simp_all
  show "nd_shape lat = squeezed S \<and> nd_shape lon = squeezed S \<and> nd_shape d = squeezed S"
    unfolding out using l by (simp only: nd_squeeze_shape(1))
  show "nd_wf lat \<and> nd_wf lon \<and> nd_wf d"
    unfolding out using l by (simp only: nd_squeeze_shape(2))
  show "(is_scalar lat \<longleftrightarrow> squeezed S = []) \<and> (is_scalar lon \<longleftrightarrow> squeezed S = []) \<and>
         (is_scalar d \<longleftrightarrow> squeezed S = [])"
    unfolding out using l by (simp only: nd_squeeze_shape(3))
  assume i: "i < prod_list S"
  show "nd_flat d i = slant_numpy abc (elems ! i)"
    unfolding out using i assms(2) by (simp add: nd_flat_squeeze)
  have "surface_point K deg (elems ! i, slant_numpy abc (elems ! i)) = Inr (geos ! i)"
    using geos i assms(2) by (auto simp: each_Inr_iff)
  moreover have "geos ! i = (nd_flat lat i, nd_flat lon i, snd (snd (geos ! i)))"
    unfolding out using i len by (simp add: nd_flat_squeeze)
  ultimately show "\<exists>alt. surface_point K deg (elems ! i, slant_numpy abc (elems ! i))
           = Inr (nd_flat lat i, nd_flat lon i, alt)"
    by metis
qed

lemma nd_scalar_call:
  assumes "\<not> h0 < Fin 0"
    and "ray K deg (lat0, lon0, h0, az, tilt) = Inr p"
    and "surface_point K deg (p, slant_numpy (axes ell) p) = Inr (lat, lon, alt)"
  shows "lookAtSpheroid_nd K ell deg (Scalar lat0) (Scalar lon0) (Scalar h0) (Scalar az)
           (Scalar tilt) = Inr (Scalar lat, Scalar lon, Scalar (slant_numpy (axes ell) p))"
proof -
  have S: "common_shape [[Suc 0], [Suc 0], [], [], [Suc 0]] = Inr [Suc 0]"
    by (simp add: broadcast_shapes_def broadcast_dim_def)
  have "nd_inputs K deg (Scalar lat0) (Scalar lon0) (Scalar h0) (Scalar az) (Scalar tilt)
      = Inr ([1], [p])"
    unfolding nd_inputs_def Let_def
    using los_geometry_single [OF assms(2)]
    by (simp add: S del: common_shape.simps)
  moreover have "nd_finish K deg (axes ell) ([1], [p])
      = Inr (Scalar lat, Scalar lon, Scalar (slant_numpy (axes ell) p))"
    using assms(3) by (simp add: nd_finish_def Let_def nd_squeeze_def squeezed_def)
  ultimately show ?thesis
    using assms(1) by (simp add: lookAtSpheroid_nd_Inr_iff)
qed

lemma nd_guard_elem:
  assumes guard: "nd_altitude_negative h0 = Inr False" and wf: "nd_wf h0"
    and S: "common_shape ss = Inr S" and h0: "nd_shape h0 \<in> set ss"
    and i: "i < prod_list S"
  shows "\<not> nd_elem S h0 i < Fin 0"
proof (cases h0 rule: nd_altitude_negative.cases)
  case (1 x)
  with guard show ?thesis by simp
next
  case (2 sh)
  with wf have "0 \<in> set sh"
    by (simp add: prod_list_zero_iff)
  from common_shape_zero [OF S _ this] h0 2 have "0 \<in> set S"
    by simp
  then have "prod_list S = 0"
    by (simp add: prod_list_zero_iff)
  with i show ?thesis by simp
next
  case (3 sh x)
  with wf have "prod_list sh = Suc 0"
    by simp
  then have "\<forall>m\<in>set (rev sh). m = 1"
    by (simp add: prod_list_one_iff)
  then have "source_index (rev S) (rev sh) i = 0"
    by (rule source_index_ones)
  with guard 3 show ?thesis by simp
next
  case (4 sh x y ys)
  with guard show ?thesis by simp
qed

text \<open>The guard of line 66 on an altitude array of two or more elements, whatever its
  shape is.\<close>

lemma nd_altitude_array_rejected:
  assumes "2 \<le> length hs"
  shows "lookAtSpheroid_nd K ell deg lat0 lon0 (Array sh hs) az tilt = Inl ValueError"
proof -
  from assms obtain x y ys where "hs = x # y # ys"
    by (cases hs; cases "tl hs") auto
  then show ?thesis by (simp add: lookAtSpheroid_nd_def)
qed

lemma nd_elementwise:
  assumes call: "lookAtSpheroid_nd K ell deg lat0 lon0 h0 az tilt = Inr (lat, lon, d)"
    and wf: "nd_wf h0"
  shows "\<exists>S. common_shape [nd_shape (nd_atleast_1d lat0), nd_shape (nd_atleast_1d lon0),
              nd_shape h0, nd_shape az, nd_shape (nd_atleast_1d tilt)] = Inr S \<and>
          nd_shape lat = squeezed S \<and> nd_shape lon = squeezed S \<and> nd_shape d = squeezed S \<and>
          nd_wf lat \<and> nd_wf lon \<and> nd_wf d \<and>
          (is_scalar lat \<longleftrightarrow> squeezed S = []) \<and> (is_scalar lon \<longleftrightarrow> squeezed S = []) \<and>
          (is_scalar d \<longleftrightarrow> squeezed S = []) \<and>
          (\<forall>i<prod_list S.
             lookAtSpheroid_nd K ell deg (Scalar (nd_elem S lat0 i)) (Scalar (nd_elem S lon0 i))
               (Scalar (nd_elem S h0 i)) (Scalar (nd_elem S az i)) (Scalar (nd_elem S tilt i))
             = Inr (Scalar (nd_flat lat i), Scalar (nd_flat lon i), Scalar (nd_flat d i)))"
proof -
  from call obtain S elems where
    guard: "nd_altitude_negative h0 = Inr False"
    and inputs: "nd_inputs K deg lat0 lon0 h0 az tilt = Inr (S, elems)"
    and fin: "nd_finish K deg (axes ell) (S, elems) = Inr (lat, lon, d)"
    by (auto simp: lookAtSpheroid_nd_Inr_iff)
  note inp = nd_inputs_elem [OF inputs]
  note out = nd_finish_elem [OF fin inp(2)]
  have "lookAtSpheroid_nd K ell deg (Scalar (nd_elem S lat0 i)) (Scalar (nd_elem S lon0 i))
          (Scalar (nd_elem S h0 i)) (Scalar (nd_elem S az i)) (Scalar (nd_elem S tilt i))
        = Inr (Scalar (nd_flat lat i), Scalar (nd_flat lon i), Scalar (nd_flat d i))"
    if i: "i < prod_list S" for i
  proof -
    from out(5) [OF i] obtain alt where
      sp: "surface_point K deg (elems ! i, slant_numpy (axes ell) (elems ! i))
        = Inr (nd_flat lat i, nd_flat lon i, alt)"
      by blast
    have "\<not> nd_elem S h0 i < Fin 0"
      using guard wf inp(1) _ i by (rule nd_guard_elem) simp
    from nd_scalar_call [OF this inp(3) [OF i] sp] out(4) [OF i] show ?thesis
      by simp
  qed
  with inp(1) out(1,2,3) show ?thesis
    by blast
qed

lemma nd_accepted:
  assumes "nd_altitude_negative h0 = Inr False"
    and "common_shape [nd_shape (nd_atleast_1d lat0), nd_shape (nd_atleast_1d lon0),
              nd_shape h0, nd_shape az, nd_shape (nd_atleast_1d tilt)] = Inr S"
    and "collab_returns K deg"
  shows "\<exists>lat lon d. lookAtSpheroid_nd K ell deg lat0 lon0 h0 az tilt = Inr (lat, lon, d)"
proof -
  from los_geometry_returns [OF assms(3)] assms(2)
  obtain elems where inputs: "nd_inputs K deg lat0 lon0 h0 az tilt = Inr (S, elems)"
    unfolding nd_inputs_def Let_def by (auto simp: bindE_Inr_iff simp del: common_shape.simps)
  have "ecef_returns K deg"
    using assms(3) by (simp add: collab_returns_def ecef_returns_def)
  from each_returns [of "surface_point K deg", OF surface_point_returns [OF this]]
  obtain out where "nd_finish K deg (axes ell) (S, elems) = Inr out"
    by (simp add: nd_finish_def Let_def)
  with inputs assms(1) show ?thesis
    by (cases out) (auto simp: lookAtSpheroid_nd_Inr_iff)
qed


lemma nd_two_sights:
  "nd_inputs axis_collab True (Array [1, 2] [Fin 0, Fin 0]) (Scalar (Fin 0))
     (Scalar (Fin 600000)) (Scalar (Fin 0)) (Array [2] [Fin 0, Fin 90])
   = Inr ([1, 2],
          [((Fin (- 1), Fin 0, Fin 0), (Fin 6978137, Fin 0, Fin 0)),
           ((Fin 0, Fin 0, Fin 1), (Fin 6978137, Fin 0, Fin 0))])"
  by (simp add: nd_inputs_def broadcast_shapes_def broadcast_dim_def los_geometry_def
      elevation_def upt_2 del: One_nat_def)

lemma nd_two_sights_call:
  "lookAtSpheroid_nd axis_collab None True (Array [1, 2] [Fin 0, Fin 0]) (Scalar (Fin 0))
     (Scalar (Fin 600000)) (Scalar (Fin 0)) (Array [2] [Fin 0, Fin 90])
   = Inr (Array [2] [Fin 0, NaN], Array [2] [Fin 0, NaN], Array [2] [Fin 600000, NaN])"
  by (simp add: lookAtSpheroid_nd_def nd_two_sights nd_finish_def nd_squeeze_def squeezed_def
      nadir_slant_numpy horizon_slant_numpy del: slant_numpy.simps axes_None One_nat_def)

lemma nd_horizon_call:
  "lookAtSpheroid_nd axis_collab None True (Scalar (Fin 0)) (Scalar (Fin 0))
     (Scalar (Fin 600000)) (Scalar (Fin 0)) (Scalar (Fin 90))
   = Inr (Scalar NaN, Scalar NaN, Scalar NaN)"
  using nd_scalar_call [of "Fin 600000" axis_collab True "Fin 0" "Fin 0" "Fin 0" "Fin 90"
      "((Fin 0, Fin 0, Fin 1), (Fin 6978137, Fin 0, Fin 0))" None NaN NaN NaN]
  by (simp add: horizon_sight horizon_slant_numpy del: ray.simps slant_numpy.simps axes_None)

text \<open>
  Claim C5, as the code has it. The function accepts scalars interchangeably with arrays
  for \<open>lat0\<close>, \<open>lon0\<close>, \<open>h0\<close>, \<open>az\<close> and \<open>tilt\<close> on every call that gets past the guard
  of line 66, and broadcasts them to a common shape \<open>S\<close>. The three outputs have the
  shape \<open>S\<close> without its axes of length one (line 124 squeezes): they are scalars when
  no axis remains, which is so for scalar inputs and also for arrays of a single
  element, and arrays of that shape otherwise, the shape \<open>(1, 2)\<close> giving \<open>(2,)\<close>. Element
  \<open>i\<close> of the outputs, in row-major order, is what the call on element \<open>i\<close> of each
  broadcast input returns, so it depends on those elements only. What the guard does
  with an altitude array of two or more elements is the matter of claim C10 and is left
  out here, as is the altitude array without elements.

  First conjunct: the call returns when the guard passes on an altitude that has an
  element, the shapes are compatible and no collaborator raises. Second conjunct: the
  shapes and the elements of what a call returns (the altitude being an array of numpy,
  \<open>nd_wf\<close>).
\<close>

theorem shapes_and_elements:
  "(nd_altitude_negative h0 = Inr False \<and> 0 < nd_size h0 \<and>
    common_shape [nd_shape (nd_atleast_1d lat0), nd_shape (nd_atleast_1d lon0), nd_shape h0,
      nd_shape az, nd_shape (nd_atleast_1d tilt)] = Inr S \<and>
    collab_returns K deg \<longrightarrow>
      (\<exists>lat lon d. lookAtSpheroid_nd K ell deg lat0 lon0 h0 az tilt = Inr (lat, lon, d))) \<and>
   (lookAtSpheroid_nd K ell deg lat0 lon0 h0 az tilt = Inr (lat, lon, d) \<and> nd_wf h0 \<longrightarrow>
      (\<exists>S. common_shape [nd_shape (nd_atleast_1d lat0), nd_shape (nd_atleast_1d lon0),
              nd_shape h0, nd_shape az, nd_shape (nd_atleast_1d tilt)] = Inr S \<and>
           nd_shape lat = squeezed S \<and> nd_shape lon = squeezed S \<and> nd_shape d = squeezed S \<and>
           nd_wf lat \<and> nd_wf lon \<and> nd_wf d \<and>
           (is_scalar lat \<longleftrightarrow> squeezed S = []) \<and> (is_scalar lon \<longleftrightarrow> squeezed S = []) \<and>
           (is_scalar d \<longleftrightarrow> squeezed S = []) \<and>
           (\<forall>i<prod_list S.
              lookAtSpheroid_nd K ell deg (Scalar (nd_elem S lat0 i)) (Scalar (nd_elem S lon0 i))
                (Scalar (nd_elem S h0 i)) (Scalar (nd_elem S az i)) (Scalar (nd_elem S tilt i))
              = Inr (Scalar (nd_flat lat i), Scalar (nd_flat lon i), Scalar (nd_flat d i)))))"
proof (intro conjI impI; (elim conjE)?)
  assume "nd_altitude_negative h0 = Inr False"
    and "common_shape [nd_shape (nd_atleast_1d lat0), nd_shape (nd_atleast_1d lon0), nd_shape h0,
      nd_shape az, nd_shape (nd_atleast_1d tilt)] = Inr S"
    and "collab_returns K deg"
  then show "\<exists>lat lon d. lookAtSpheroid_nd K ell deg lat0 lon0 h0 az tilt = Inr (lat, lon, d)"
    by (rule nd_accepted)
next
  assume "lookAtSpheroid_nd K ell deg lat0 lon0 h0 az tilt = Inr (lat, lon, d)" and "nd_wf h0"
  then show "\<exists>S. common_shape [nd_shape (nd_atleast_1d lat0), nd_shape (nd_atleast_1d lon0),
              nd_shape h0, nd_shape az, nd_shape (nd_atleast_1d tilt)] = Inr S \<and>
           nd_shape lat = squeezed S \<and> nd_shape lon = squeezed S \<and> nd_shape d = squeezed S \<and>
           nd_wf lat \<and> nd_wf lon \<and> nd_wf d \<and>
           (is_scalar lat \<longleftrightarrow> squeezed S = []) \<and> (is_scalar lon \<longleftrightarrow> squeezed S = []) \<and>
           (is_scalar d \<longleftrightarrow> squeezed S = []) \<and>
           (\<forall>i<prod_list S.
              lookAtSpheroid_nd K ell deg (Scalar (nd_elem S lat0 i)) (Scalar (nd_elem S lon0 i))
                (Scalar (nd_elem S h0 i)) (Scalar (nd_elem S az i)) (Scalar (nd_elem S tilt i))
              = Inr (Scalar (nd_flat lat i), Scalar (nd_flat lon i), Scalar (nd_flat d i)))"
    by (rule nd_elementwise)
qed

theorem shapes_and_elements_witness:
  "(\<exists>lat lon d.
      lookAtSpheroid_nd axis_collab None True (Array [1, 2] [Fin 0, Fin 0]) (Scalar (Fin 0))
        (Scalar (Fin 600000)) (Scalar (Fin 0)) (Array [2] [Fin 0, Fin 90]) = Inr (lat, lon, d)) \<and>
   nd_shape (Array [2] [Fin 600000, NaN]) = squeezed [1, 2] \<and>
   lookAtSpheroid_nd axis_collab None True (Scalar (Fin 0)) (Scalar (Fin 0))
     (Scalar (Fin 600000)) (Scalar (Fin 0)) (Scalar (Fin 90))
   = Inr (Scalar NaN, Scalar NaN, Scalar NaN)"
proof -
  note inst = shapes_and_elements [where K = axis_collab and deg = True and ell = None
      and ?lat0.0 = "Array [1, 2] [Fin 0, Fin 0]" and ?lon0.0 = "Scalar (Fin 0)"
      and ?h0.0 = "Scalar (Fin 600000)" and az = "Scalar (Fin 0)"
      and tilt = "Array [2] [Fin 0, Fin 90]"
      and S = "[1, 2]" and lat = "Array [2] [Fin 0, NaN]" and lon = "Array [2] [Fin 0, NaN]"
      and d = "Array [2] [Fin 600000, NaN]"]
  have shape0: "common_shape [[1, 2], [1], [], [], [2]] = Inr [1, 2]"
    by (simp add: broadcast_shapes_def broadcast_dim_def del: One_nat_def)
  have shape: "common_shape [nd_shape (nd_atleast_1d (Array [1, 2] [Fin 0, Fin 0])),
        nd_shape (nd_atleast_1d (Scalar (Fin 0))), nd_shape (Scalar (Fin 600000)),
        nd_shape (Scalar (Fin 0)), nd_shape (nd_atleast_1d (Array [2] [Fin 0, Fin 90]))]
      = Inr [1, 2]"
    by (simp add: shape0 del: common_shape.simps One_nat_def)
  have 1: "\<exists>lat lon d.
      lookAtSpheroid_nd axis_collab None True (Array [1, 2] [Fin 0, Fin 0]) (Scalar (Fin 0))
        (Scalar (Fin 600000)) (Scalar (Fin 0)) (Array [2] [Fin 0, Fin 90]) = Inr (lat, lon, d)"
    by (rule inst [THEN conjunct1, THEN mp]) (simp add: shape0 del: common_shape.simps One_nat_def)
  have "lookAtSpheroid_nd axis_collab None True (Array [1, 2] [Fin 0, Fin 0]) (Scalar (Fin 0))
        (Scalar (Fin 600000)) (Scalar (Fin 0)) (Array [2] [Fin 0, Fin 90])
      = Inr (Array [2] [Fin 0, NaN], Array [2] [Fin 0, NaN], Array [2] [Fin 600000, NaN]) \<and>
    nd_wf (Scalar (Fin 600000))"
    by (simp add: nd_two_sights_call del: One_nat_def)
  from inst [THEN conjunct2, THEN mp, OF this] obtain S where
    S: "common_shape [nd_shape (nd_atleast_1d (Array [1, 2] [Fin 0, Fin 0])),
        nd_shape (nd_atleast_1d (Scalar (Fin 0))), nd_shape (Scalar (Fin 600000)),
        nd_shape (Scalar (Fin 0)), nd_shape (nd_atleast_1d (Array [2] [Fin 0, Fin 90]))]
      = Inr S"
    and sh: "nd_shape (Array [2] [Fin 600000, NaN]) = squeezed S"
    and elems: "\<forall>i<prod_list S.
        lookAtSpheroid_nd axis_collab None True
          (Scalar (nd_elem S (Array [1, 2] [Fin 0, Fin 0]) i))
          (Scalar (nd_elem S (Scalar (Fin 0)) i)) (Scalar (nd_elem S (Scalar (Fin 600000)) i))
          (Scalar (nd_elem S (Scalar (Fin 0)) i))
          (Scalar (nd_elem S (Array [2] [Fin 0, Fin 90]) i))
        = Inr (Scalar (nd_flat (Array [2] [Fin 0, NaN]) i),
               Scalar (nd_flat (Array [2] [Fin 0, NaN]) i),
               Scalar (nd_flat (Array [2] [Fin 600000, NaN]) i))"
    by blast
  from S shape have S12: "S = [1, 2]"
    by (simp del: common_shape.simps One_nat_def)
  from sh S12 have 2: "nd_shape (Array [2] [Fin 600000, NaN]) = squeezed [1, 2]"
    by (simp del: One_nat_def)
  from elems [rule_format, of 1] S12
  have 3: "lookAtSpheroid_nd axis_collab None True (Scalar (Fin 0)) (Scalar (Fin 0))
     (Scalar (Fin 600000)) (Scalar (Fin 0)) (Scalar (Fin 90))
   = Inr (Scalar NaN, Scalar NaN, Scalar NaN)"
    by simp
  from 1 2 3 show ?thesis
    by blast
qed

text \<open>
  The claim as the specification states it asks for outputs of the common shape of the
  inputs. Arrays of one element have the common shape \<open>(1,)\<close>, and the outputs are
  scalars: in the embedding on arrays of any shape, and in the one on one-dimensional
  arrays.
\<close>

theorem single_element_arrays_give_scalars:
  "lookAtSpheroid_nd axis_collab None True (Array [1] [Fin 0]) (Array [1] [Fin 0])
     (Array [1] [Fin 600000]) (Array [1] [Fin 0]) (Array [1] [Fin 0])
     = Inr (Scalar (Fin 0), Scalar (Fin 0), Scalar (Fin 600000)) \<and>
   common_shape [nd_shape (Array [1] [Fin 0]), nd_shape (Array [1] [Fin 0]),
     nd_shape (Array [1] [Fin 600000]), nd_shape (Array [1] [Fin 0]),
     nd_shape (Array [1] [Fin 0])] = Inr [1] \<and>
   nd_shape (Scalar (Fin 600000)) \<noteq> [1] \<and>
   lookAtSpheroid axis_collab None True (Arr [Fin 0]) (Arr [Fin 0]) (Arr [Fin 600000])
     (Arr [Fin 0]) (Arr [Fin 0]) = Inr (Sc (Fin 0), Sc (Fin 0), Sc (Fin 600000)) \<and>
   common_len (dims (Arr [Fin 0]) @ dims (Arr [Fin 0]) @ dims (Arr [Fin 600000]) @
     dims (Arr [Fin 0]) @ dims (Arr [Fin 0])) = Inr 1 \<and>
   dims (Arr [Fin 600000]) = [1] \<and> dims (Sc (Fin 600000)) = []"
  by (simp add: lookAtSpheroid_nd_def nd_inputs_def broadcast_shapes_def broadcast_dim_def
      nd_finish_def nd_squeeze_def squeezed_def
      lookAtSpheroid_def los_inputs_def broadcast_rows_def common_len_def
      los_geometry_def elevation_def los_finish_def axis_slant_numpy
      del: slant_numpy.simps)

subsection \<open>Units\<close>

lemma radians_elevation: "radians (elevation True t) = elevation False (radians t)"
proof (cases t)
  case (Fin x)
  have "(x - 90) * (pi / 180) = x * (pi / 180) - pi / 2"
    by (simp add: field_simps)
  then show ?thesis
    by (simp add: Fin radians_def elevation_def)
qed (simp_all add: radians_def elevation_def minus_num_def inf_of_sign_def)

lemma bindE_map_sum: "bindE (map_sum id f m) g = bindE m (\<lambda>x. g (f x))"
  by (cases m) simp_all

lemma map_sum_bindE: "map_sum id f (bindE m g) = bindE m (\<lambda>x. map_sum id f (g x))"
  by (cases m) simp_all

lemma each_cong:
  assumes "\<And>x. x \<in> set xs \<Longrightarrow> f x = g x"
  shows "each f xs = each g xs"
  using assms by (induction xs) simp_all

lemma each_map: "each f (map g xs) = each (\<lambda>x. f (g x)) xs"
  by (induction xs) simp_all

lemma each_map_sum:
  "each (\<lambda>x. map_sum id h (f x)) xs = map_sum id (map h) (each f xs)"
proof (induction xs)
  case Nil
  then show ?case by simp
next
  case (Cons x xs)
  then show ?case
    by (cases "f x"; cases "each f xs") simp_all
qed

lemma squeeze_map: "squeeze (map f xs) = pymap f (squeeze xs)"
  by (cases xs rule: squeeze.cases) simp_all

lemma ray_units:
  assumes "unit_flag K"
  shows "ray K True row = ray K False (radians_row row)"
proof -
  obtain lat0 lon0 h0 az tilt where row: "row = (lat0, lon0, h0, az, tilt)"
    by (cases row) auto
  from assms have
    1: "\<And>az el r. aer2enu K az el r True = aer2enu K (radians az) (radians el) r False"
    and 2: "\<And>e n u lat0 lon0.
        enu2uvw K e n u lat0 lon0 True = enu2uvw K e n u (radians lat0) (radians lon0) False"
    and 3: "\<And>lat0 lon0 h0.
        geodetic2ecef K lat0 lon0 h0 True = geodetic2ecef K (radians lat0) (radians lon0) h0 False"
    by (simp_all add: unit_flag_def)
  show ?thesis
    by (simp add: row 1 2 3 radians_elevation)
qed

lemma surface_point_units:
  assumes "unit_flag K"
  shows "surface_point K True q = map_sum id degrees_geo (surface_point K False q)"
proof -
  obtain uvw xyz d where q: "q = ((uvw, xyz), d)"
    by (metis surj_pair)
  obtain u v w where uvw: "uvw = (u, v, w)"
    by (cases uvw) auto
  obtain x y z where xyz: "xyz = (x, y, z)"
    by (cases xyz) auto
  from assms have "\<And>x y z. ecef2geodetic K x y z True =
      map_sum id (\<lambda>(lat, lon, alt). (degrees lat, degrees lon, alt)) (ecef2geodetic K x y z False)"
    by (simp add: unit_flag_def)
  then show ?thesis
    by (simp add: q uvw xyz degrees_geo_def [abs_def])
qed

lemma math_units:
  assumes "unit_flag K"
  shows "lookAtSpheroid_math K ell True lat0 lon0 h0 az tilt =
     map_sum id (\<lambda>(lat, lon, d). (degrees lat, degrees lon, d))
       (lookAtSpheroid_math K ell False (radians lat0) (radians lon0) h0 (radians az)
          (radians tilt))"
proof -
  have r: "ray K True (lat0, lon0, h0, az, tilt)
      = ray K False (radians lat0, radians lon0, h0, radians az, radians tilt)"
    using ray_units [OF assms, of "(lat0, lon0, h0, az, tilt)"] by simp
  show ?thesis
    unfolding lookAtSpheroid_math_def r
    by (auto simp: map_sum_bindE surface_point_units [OF assms] bindE_map_sum degrees_geo_def
        split: prod.splits intro!: arg_cong2 [where f = bindE] ext simp del: ray.simps
        surface_point.simps)
qed


lemma dims_pymap [simp]: "dims (pymap f v) = dims v"
  by (cases v) simp_all

lemma atleast_1d_pymap [simp]: "atleast_1d (pymap f v) = pymap f (atleast_1d v)"
  by (cases v) simp_all

lemma elem_pymap:
  assumes "common_len ls = Inr n" and "set (dims v) \<subseteq> set ls" and "i < n"
  shows "elem (pymap f v) i = f (elem v i)"
proof (cases v)
  case (Sc x)
  then show ?thesis by simp
next
  case (Arr xs)
  with assms(2) have "length xs \<in> set ls"
    by simp
  from common_len_sound [OF assms(1) this] show ?thesis
  proof
    assume "length xs = 1"
    then show ?thesis
      by (cases xs) (simp_all add: Arr)
  next
    assume "length xs = n"
    with assms(3) have "xs \<noteq> []" and "i < length xs"
      by auto
    then show ?thesis
      by (simp add: Arr hd_map)
  qed
qed

lemma broadcast_rows_units:
  "broadcast_rows (pymap radians lat0) (pymap radians lon0) h0 (pymap radians az)
     (pymap radians tilt)
   = map_sum id (map radians_row) (broadcast_rows lat0 lon0 h0 az tilt)"
proof (cases "common_len (dims lat0 @ dims lon0 @ dims h0 @ dims az @ dims tilt)")
  case (Inl e)
  then show ?thesis
    by (simp add: broadcast_rows_def)
next
  case (Inr n)
  have "(elem (pymap radians lat0) i, elem (pymap radians lon0) i, elem h0 i,
          elem (pymap radians az) i, elem (pymap radians tilt) i)
        = radians_row (elem lat0 i, elem lon0 i, elem h0 i, elem az i, elem tilt i)"
    if "i < n" for i
  proof -
    have "elem (pymap radians v) i = radians (elem v i)"
      if "set (dims v) \<subseteq> set (dims lat0 @ dims lon0 @ dims h0 @ dims az @ dims tilt)" for v
      using Inr that \<open>i < n\<close> by (rule elem_pymap)
    then have "elem (pymap radians lat0) i = radians (elem lat0 i)"
      and "elem (pymap radians lon0) i = radians (elem lon0 i)"
      and "elem (pymap radians az) i = radians (elem az i)"
      and "elem (pymap radians tilt) i = radians (elem tilt i)"
      by auto
    then show ?thesis
      by simp
  qed
  then show ?thesis
    by (simp add: broadcast_rows_def Inr)
qed

lemma los_geometry_units:
  assumes "unit_flag K"
  shows "los_geometry K True rows = los_geometry K False (map radians_row rows)"
proof -
  from assms have
    a: "\<And>az el r. aer2enu K az el r True = aer2enu K (radians az) (radians el) r False"
    and b: "\<And>e n u lat0 lon0.
        enu2uvw K e n u lat0 lon0 True = enu2uvw K e n u (radians lat0) (radians lon0) False"
    and c: "\<And>lat0 lon0 h0.
        geodetic2ecef K lat0 lon0 h0 True = geodetic2ecef K (radians lat0) (radians lon0) h0 False"
    by (simp_all add: unit_flag_def)
  have 1: "each (\<lambda>(lat0, lon0, h0, az, tilt).
               aer2enu K az (elevation False tilt) (Fin 1) False) (map radians_row rows)
         = each (\<lambda>(lat0, lon0, h0, az, tilt).
               aer2enu K az (elevation True tilt) (Fin 1) True) rows"
    unfolding each_map by (rule each_cong) (auto simp: a radians_elevation)
  have 2: "each (\<lambda>((lat0, lon0, h0, az, tilt), (e, n, u)).
               enu2uvw K e n u lat0 lon0 False) (zip (map radians_row rows) enus)
         = each (\<lambda>((lat0, lon0, h0, az, tilt), (e, n, u)).
               enu2uvw K e n u lat0 lon0 True) (zip rows enus)" for enus
    unfolding zip_map1 each_map by (rule each_cong) (auto simp: b)
  have 3: "each (\<lambda>(lat0, lon0, h0, az, tilt).
               geodetic2ecef K lat0 lon0 h0 False) (map radians_row rows)
         = each (\<lambda>(lat0, lon0, h0, az, tilt).
               geodetic2ecef K lat0 lon0 h0 True) rows"
    unfolding each_map by (rule each_cong) (auto simp: c)
  show ?thesis
    unfolding los_geometry_def 1 2 3 ..
qed

lemma los_inputs_units:
  assumes "unit_flag K"
  shows "los_inputs K False (pymap radians lat0) (pymap radians lon0) h0 (pymap radians az)
           (pymap radians tilt)
         = los_inputs K True lat0 lon0 h0 az tilt"
  by (simp add: los_inputs_def broadcast_rows_units bindE_map_sum
      los_geometry_units [OF assms, symmetric])

lemma los_finish_units:
  assumes "unit_flag K"
  shows "los_finish K True abc elems =
     map_sum id (\<lambda>(lat, lon, d). (pymap degrees lat, pymap degrees lon, d))
       (los_finish K False abc elems)"
proof -
  let ?qs = "zip elems (map (slant_numpy abc) elems)"
  have e: "each (surface_point K True) ?qs
      = map_sum id (map degrees_geo) (each (surface_point K False) ?qs)"
    unfolding surface_point_units [OF assms] by (rule each_map_sum)
  have f: "squeeze (map (fst \<circ> degrees_geo) geos) = pymap degrees (squeeze (map fst geos))"
    for geos
  proof -
    have "map (fst \<circ> degrees_geo) geos = map degrees (map fst geos)"
      by (simp add: degrees_geo_def split: prod.splits)
    then show ?thesis
      by (simp only: squeeze_map)
  qed
  have g: "squeeze (map ((\<lambda>g. fst (snd g)) \<circ> degrees_geo) geos)
      = pymap degrees (squeeze (map (\<lambda>g. fst (snd g)) geos))" for geos
  proof -
    have "map ((\<lambda>g. fst (snd g)) \<circ> degrees_geo) geos
        = map degrees (map (\<lambda>g. fst (snd g)) geos)"
      by (simp add: degrees_geo_def split: prod.splits)
    then show ?thesis
      by (simp only: squeeze_map)
  qed
  show ?thesis
    unfolding los_finish_def Let_def e
    by (cases "each (surface_point K False) ?qs") (simp_all add: f g)
qed

lemma numpy_units:
  assumes "unit_flag K"
  shows "lookAtSpheroid K ell True lat0 lon0 h0 az tilt =
     map_sum id (\<lambda>(lat, lon, d). (pymap degrees lat, pymap degrees lon, d))
       (lookAtSpheroid K ell False (pymap radians lat0) (pymap radians lon0) h0
          (pymap radians az) (pymap radians tilt))"
proof (cases "altitude_negative h0")
  case (Inl e)
  then show ?thesis
    by (simp add: lookAtSpheroid_def)
next
  case (Inr negative)
  show ?thesis
  proof (cases "los_inputs K True lat0 lon0 h0 az tilt")
    case (Inl e)
    then show ?thesis
      by (simp add: lookAtSpheroid_def Inr los_inputs_units [OF assms])
  next
    case inputs: (Inr elems)
    show ?thesis
      by (simp add: lookAtSpheroid_def Inr inputs los_inputs_units [OF assms]
          los_finish_units [OF assms])
  qed
qed

text \<open>
  Claim C7. Calling the function with angles in degrees and \<open>deg = true\<close> returns the
  same latitude, longitude and slant range as calling it with the angles converted to
  radians and \<open>deg = false\<close>, the angles of the result being expressed in the unit of
  the call.

  The statement is for collaborators that respect their unit flag (\<open>unit_flag\<close>). What
  the function itself contributes is proved of it: the flag is handed unchanged to
  the four collaborators and the offset of line 83 is 90 degrees or \<open>pi / 2\<close> with it.
  Over exact reals the results are equal, exceptions included, so no tolerance is
  needed; the rounding that makes the specification speak of a tolerance is not
  modelled.
\<close>

theorem unit_flag_respected:
  "unit_flag K \<longrightarrow>
     lookAtSpheroid K ell True lat0 lon0 h0 az tilt =
       map_sum id (\<lambda>(lat, lon, d). (pymap degrees lat, pymap degrees lon, d))
         (lookAtSpheroid K ell False (pymap radians lat0) (pymap radians lon0) h0
            (pymap radians az) (pymap radians tilt)) \<and>
     lookAtSpheroid_math K ell True lat0' lon0' h0' az' tilt' =
       map_sum id (\<lambda>(lat, lon, d). (degrees lat, degrees lon, d))
         (lookAtSpheroid_math K ell False (radians lat0') (radians lon0') h0' (radians az')
            (radians tilt'))"
  using numpy_units math_units by blast


lemma radians_tests:
  "radians el = NaN \<longleftrightarrow> el = NaN"
  "radians el = Fin 0 \<longleftrightarrow> el = Fin 0"
  "radians el < Fin 0 \<longleftrightarrow> el < Fin 0"
  "Fin 0 < radians el \<longleftrightarrow> Fin 0 < el"
  by (cases el; simp add: radians_def inf_of_sign_def zero_less_mult_iff mult_less_0_iff)+

lemma degrees_values:
  "degrees NaN = NaN" "degrees (Fin 0) = Fin 0" "degrees (Fin pi) = Fin 180"
  by (simp_all add: degrees_def)

lemma axis_collab_unit_flag: "unit_flag axis_collab"
  by (simp add: unit_flag_def radians_tests degrees_values)

theorem unit_flag_respected_witness:
  "unit_flag axis_collab \<and>
   lookAtSpheroid axis_collab None True (Sc (Fin 0)) (Sc (Fin 0)) (Sc (Fin 600000))
     (Sc (Fin 0)) (Sc (Fin 0))
   = map_sum id (\<lambda>(lat, lon, d). (pymap degrees lat, pymap degrees lon, d))
       (lookAtSpheroid axis_collab None False (pymap radians (Sc (Fin 0)))
          (pymap radians (Sc (Fin 0))) (Sc (Fin 600000)) (pymap radians (Sc (Fin 0)))
          (pymap radians (Sc (Fin 0)))) \<and>
   lookAtSpheroid_math axis_collab None True (Fin 0) (Fin 0) (Fin 600000) (Fin 0) (Fin 180)
   = map_sum id (\<lambda>(lat, lon, d). (degrees lat, degrees lon, d))
       (lookAtSpheroid_math axis_collab None False (radians (Fin 0)) (radians (Fin 0))
          (Fin 600000) (radians (Fin 0)) (radians (Fin 180)))"
  using axis_collab_unit_flag
    unit_flag_respected [where K = axis_collab and ell = None
      and ?lat0.0 = "Sc (Fin 0)" and ?lon0.0 = "Sc (Fin 0)" and ?h0.0 = "Sc (Fin 600000)"
      and az = "Sc (Fin 0)" and tilt = "Sc (Fin 0)"
      and lat0' = "Fin 0" and lon0' = "Fin 0" and h0' = "Fin 600000" and az' = "Fin 0"
      and tilt' = "Fin 180"]
  by blast

end
